theory Spec2Isabelle
  imports Main "HOL-Library.AList" "HOL-Library.Sublist"
begin

section \<open>JavaScript values\<close>

text \<open>
  The server of \<^verbatim>\<open>src/Server.js\<close> handles JSON request bodies, keeps JavaScript objects
  in a \<^verbatim>\<open>Map\<close> and answers with JavaScript objects. The values are modelled as they are at
  run time: \<open>JUndefined\<close> is what reading a missing property gives, an object is the list of
  its own properties in insertion order. Where a list names a key twice the last binding is
  the property's value, as \<^verbatim>\<open>JSON.parse\<close> treats a repeated key.

  Numbers: the model has the integers and NaN. Fractional and infinite doubles, and the
  rounding of integers beyond \<open>2^53\<close>, are outside it; \<open>+0\<close> and \<open>-0\<close> are one value,
  which \<^verbatim>\<open>===\<close>, truthiness, \<^verbatim>\<open>String\<close> and the key comparison of \<^verbatim>\<open>Map\<close> do not
  tell apart either. Strings are byte strings.
\<close>

datatype jsval =
    JUndefined
  | JNull
  | JBool bool
  | JNaN
  | JNum int
  | JStr string
  | JArr "jsval list"
  | JObj "(string \<times> jsval) list"

text \<open>A thrown exception: its \<^verbatim>\<open>message\<close> and, for a failed HTTP call that got an answer,
  \<^verbatim>\<open>response.data\<close> (\<open>JUndefined\<close> when the error has no response).\<close>

datatype js_error = JsError (message: string) (response_data: jsval)

definition TypeError :: "string \<Rightarrow> js_error" where
  "TypeError msg = JsError msg JUndefined"

text \<open>Truthiness, as \<^verbatim>\<open>!x\<close>, \<^verbatim>\<open>x || y\<close> and \<^verbatim>\<open>if (x)\<close> test it.\<close>

fun truthy :: "jsval \<Rightarrow> bool" where
  "truthy JUndefined = False"
| "truthy JNull = False"
| "truthy (JBool b) = b"
| "truthy JNaN = False"
| "truthy (JNum n) = (n \<noteq> 0)"
| "truthy (JStr s) = (s \<noteq> [])"
| "truthy (JArr xs) = True"
| "truthy (JObj kvs) = True"

fun nullish :: "jsval \<Rightarrow> bool" where
  "nullish JUndefined = True"
| "nullish JNull = True"
| "nullish v = False"

text \<open>\<^verbatim>\<open>a || b\<close> and \<^verbatim>\<open>a ?? b\<close> (neither operand of the program has an effect).\<close>

definition lor :: "jsval \<Rightarrow> jsval \<Rightarrow> jsval" where
  "lor a b = (if truthy a then a else b)"

definition coalesce :: "jsval \<Rightarrow> jsval \<Rightarrow> jsval" where
  "coalesce a b = (if nullish a then b else a)"

text \<open>
  Property reads. \<open>get_prop v k\<close> is \<^verbatim>\<open>v.k\<close> for a \<open>v\<close> that is neither null nor
  undefined: an own property of an object, undefined otherwise (the program reads no
  property that a prototype provides, such as \<^verbatim>\<open>length\<close>). \<open>read_prop\<close> is the plain read, which
  throws on null and undefined; \<open>opt_prop\<close> is \<^verbatim>\<open>v?.k\<close>.
\<close>

fun get_prop :: "jsval \<Rightarrow> string \<Rightarrow> jsval" where
  "get_prop (JObj kvs) k = (case map_of (rev kvs) k of Some v \<Rightarrow> v | None \<Rightarrow> JUndefined)"
| "get_prop v k = JUndefined"

definition read_prop :: "jsval \<Rightarrow> string \<Rightarrow> js_error + jsval" where
  "read_prop v k =
     (if v = JUndefined then
        Inl (TypeError (''Cannot read properties of undefined (reading '' @ [CHR 0x27] @ k @ [CHR 0x27] @ '')''))
      else if v = JNull then
        Inl (TypeError (''Cannot read properties of null (reading '' @ [CHR 0x27] @ k @ [CHR 0x27] @ '')''))
      else Inr (get_prop v k))"

definition opt_prop :: "jsval \<Rightarrow> string \<Rightarrow> jsval" where
  "opt_prop v k = (if nullish v then JUndefined else get_prop v k)"

text \<open>Sequencing of computations that may throw.\<close>

fun bindE :: "js_error + 'a \<Rightarrow> ('a \<Rightarrow> js_error + 'b) \<Rightarrow> js_error + 'b" where
  "bindE (Inl e) f = Inl e"
| "bindE (Inr x) f = f x"

subsection \<open>Conversions\<close>

definition digit_char :: "nat \<Rightarrow> char" where
  "digit_char d = char_of (of_char CHR ''0'' + d)"

fun show_nat :: "nat \<Rightarrow> string" where
  "show_nat n = (if n < 10 then [digit_char n] else show_nat (n div 10) @ [digit_char (n mod 10)])"

declare show_nat.simps [simp del]

definition show_int :: "int \<Rightarrow> string" where
  "show_int i = (if i < 0 then CHR ''-'' # show_nat (nat (- i)) else show_nat (nat i))"

text \<open>
  \<^verbatim>\<open>String(v)\<close>. An array is joined with commas, null and undefined elements giving the
  empty string. A parsed JSON object has no callable property, so one with an own
  \<^verbatim>\<open>toString\<close> property cannot be converted and \<^verbatim>\<open>String\<close> throws; any other object gives
  \<^verbatim>\<open>[object Object]\<close>. A number is printed digit by digit, as JavaScript prints the integers
  below \<open>10^21\<close>.
\<close>

definition join :: "string list \<Rightarrow> string" where
  "join ss = (case ss of [] \<Rightarrow> [] | s # rest \<Rightarrow> foldl (\<lambda>acc t. acc @ '','' @ t) s rest)"

fun sequenceE :: "(js_error + 'a) list \<Rightarrow> js_error + 'a list" where
  "sequenceE [] = Inr []"
| "sequenceE (Inl e # rs) = Inl e"
| "sequenceE (Inr x # rs) = (case sequenceE rs of Inl e \<Rightarrow> Inl e | Inr xs \<Rightarrow> Inr (x # xs))"

fun String :: "jsval \<Rightarrow> js_error + string" where
  "String JUndefined = Inr ''undefined''"
| "String JNull = Inr ''null''"
| "String (JBool b) = Inr (if b then ''true'' else ''false'')"
| "String JNaN = Inr ''NaN''"
| "String (JNum n) = Inr (show_int n)"
| "String (JStr s) = Inr s"
| "String (JArr xs) =
     (case sequenceE (map (\<lambda>x. if nullish x then Inr [] else String x) xs) of
        Inl e \<Rightarrow> Inl e
      | Inr ss \<Rightarrow> Inr (join ss))"
| "String (JObj kvs) =
     (if ''toString'' \<in> fst ` set kvs
      then Inl (TypeError ''Cannot convert object to primitive value'')
      else Inr ''[object Object]'')"

text \<open>White space of \<^verbatim>\<open>trim\<close> and of the number grammar, within ASCII: the no-break space,
  the byte order mark and the other white space of Unicode, which \<^verbatim>\<open>trim\<close> strips as well,
  are not recognised.\<close>

definition is_space :: "char \<Rightarrow> bool" where
  "is_space c = (c \<in> {CHR 0x20, CHR 0x09, CHR 0x0A, CHR 0x0B, CHR 0x0C, CHR 0x0D})"

definition trim :: "string \<Rightarrow> string" where
  "trim s = rev (dropWhile is_space (rev (dropWhile is_space s)))"

definition is_digit :: "char \<Rightarrow> bool" where
  "is_digit c = (c \<in> set ''0123456789'')"

definition digits_value :: "string \<Rightarrow> int" where
  "digits_value ds = foldl (\<lambda>n c. 10 * n + (int (of_char c) - int (of_char CHR ''0''))) 0 ds"

text \<open>
  The conversion of a string to a number: the trimmed string, empty for 0, or an
  optionally signed run of decimal digits. The other literals of the grammar (fractions,
  exponents, hexadecimal, \<^verbatim>\<open>Infinity\<close>) denote doubles that this number type does not have or
  does not compute; they are given NaN here, like the strings that are no number at all.
\<close>

definition StringToNumber :: "string \<Rightarrow> jsval" where
  "StringToNumber s =
     (let t = trim s in
      if t = [] then JNum 0
      else
        (let (neg, ds) = (if hd t = CHR ''-'' then (True, tl t)
                          else if hd t = CHR ''+'' then (False, tl t) else (False, t))
         in if ds \<noteq> [] \<and> list_all is_digit ds
            then JNum (if neg then - digits_value ds else digits_value ds)
            else JNaN))"

fun Number :: "jsval \<Rightarrow> js_error + jsval" where
  "Number JUndefined = Inr JNaN"
| "Number JNull = Inr (JNum 0)"
| "Number (JBool b) = Inr (JNum (if b then 1 else 0))"
| "Number JNaN = Inr JNaN"
| "Number (JNum n) = Inr (JNum n)"
| "Number (JStr s) = Inr (StringToNumber s)"
| "Number (JArr xs) = bindE (String (JArr xs)) (\<lambda>s. Inr (StringToNumber s))"
| "Number (JObj kvs) = bindE (String (JObj kvs)) (\<lambda>s. Inr (StringToNumber s))"

text \<open>\<^verbatim>\<open>s.startsWith(q)\<close> and \<^verbatim>\<open>s.slice(1)\<close>.\<close>

definition startsWith :: "string \<Rightarrow> string \<Rightarrow> bool" where
  "startsWith s q = prefix q s"

definition slice1 :: "string \<Rightarrow> string" where
  "slice1 s = drop 1 s"

section \<open>The phone normaliser\<close>

text \<open>
  \<^verbatim>\<open>
  function normalizePhone(phone) {
    let p = String(phone).trim();
    if (p.startsWith("+")) p = p.slice(1);
    if (p.startsWith("0")) p = "254" + p.slice(1);
    if (p.startsWith("7")) p = "254" + p;
    return p;
  }
  \<close>
  The three tests run one after the other on the updated \<open>p\<close>.
\<close>

definition normalize_steps :: "string \<Rightarrow> string" where
  "normalize_steps s =
     (let p = trim s;
          p = (if startsWith p ''+'' then slice1 p else p);
          p = (if startsWith p ''0'' then ''254'' @ slice1 p else p);
          p = (if startsWith p ''7'' then ''254'' @ p else p)
      in p)"

definition normalizePhone :: "jsval \<Rightarrow> js_error + string" where
  "normalizePhone phone = bindE (String phone) (\<lambda>s. Inr (normalize_steps s))"

text \<open>The second server converts \<^verbatim>\<open>String(phone || "")\<close>; the steps are the same.\<close>

definition normalizePhone2 :: "jsval \<Rightarrow> js_error + string" where
  "normalizePhone2 phone = bindE (String (lor phone (JStr ''''))) (\<lambda>s. Inr (normalize_steps s))"

text \<open>The pipeline in the words of the specification: strip one leading plus; then a leading
  0 is replaced by 254, else a leading 7 gets 254 in front, else the string passes through.\<close>

definition spec_pipeline :: "string \<Rightarrow> string" where
  "spec_pipeline s =
     (let p = (if startsWith s ''+'' then slice1 s else s)
      in if startsWith p ''0'' then ''254'' @ slice1 p
         else if startsWith p ''7'' then ''254'' @ p
         else p)"

text \<open>
  The four accepted shapes: a 0 and nine digits, a 7 and eight digits, 254 and nine digits,
  and the last with a plus in front. The canonical form is 254 followed by nine digits.
\<close>

definition all_digits :: "string \<Rightarrow> bool" where
  "all_digits ds = list_all is_digit ds"

definition accepted_shape :: "string \<Rightarrow> bool" where
  "accepted_shape s =
     ((startsWith s ''0'' \<and> length s = 10 \<and> all_digits s)
    \<or> (startsWith s ''7'' \<and> length s = 9 \<and> all_digits s)
    \<or> (startsWith s ''254'' \<and> length s = 12 \<and> all_digits s)
    \<or> (startsWith s ''+254'' \<and> length s = 13 \<and> all_digits (drop 1 s)))"

definition canonical :: "string \<Rightarrow> bool" where
  "canonical s = (startsWith s ''254'' \<and> length (drop 3 s) = 9 \<and> all_digits s)"

section \<open>Objects and the Map\<close>

text \<open>
  An object literal \<^verbatim>\<open>{ ...a, k1: v1, k2: v2 }\<close> is \<open>obj (spread a @ [(k1, v1), (k2, v2)])\<close>:
  the entries are written from left to right, a key written again keeps its place and takes
  the new value. (The engine lists integer-like keys first; no read depends on the order.)
  Spreading an array or a string gives its elements under their indices, spreading any
  other primitive gives nothing.
\<close>

definition obj :: "(string \<times> jsval) list \<Rightarrow> jsval" where
  "obj es = JObj (foldl (\<lambda>acc (k, v). AList.update k v acc) [] es)"

fun spread :: "jsval \<Rightarrow> (string \<times> jsval) list" where
  "spread (JObj kvs) = kvs"
| "spread (JArr xs) = zip (map show_nat [0..<length xs]) xs"
| "spread (JStr s) = zip (map show_nat [0..<length s]) (map (\<lambda>c. JStr [c]) s)"
| "spread v = []"

text \<open>\<^verbatim>\<open>const { k = d } = ...\<close>: the default applies to undefined only.\<close>

definition dflt :: "jsval \<Rightarrow> jsval \<Rightarrow> jsval" where
  "dflt v d = (if v = JUndefined then d else v)"

text \<open>
  \<^verbatim>\<open>const mpesaTx = new Map()\<close>. The entries are kept in insertion order. Keys are compared
  by value when they are primitives. An array or an object is a key by reference, and every
  key of the program comes out of a freshly parsed body: such a key is never found again,
  and setting it always adds an entry. The program calls \<^verbatim>\<open>get\<close> and \<^verbatim>\<open>set\<close>; \<^verbatim>\<open>has\<close> and
  \<^verbatim>\<open>size\<close> are here for the statements about the ledger.
\<close>

type_synonym ledger = "(jsval \<times> jsval) list"

fun is_ref :: "jsval \<Rightarrow> bool" where
  "is_ref (JArr xs) = True"
| "is_ref (JObj kvs) = True"
| "is_ref v = False"

definition Map_has :: "ledger \<Rightarrow> jsval \<Rightarrow> bool" where
  "Map_has L k = (\<not> is_ref k \<and> map_of L k \<noteq> None)"

definition Map_get :: "ledger \<Rightarrow> jsval \<Rightarrow> jsval" where
  "Map_get L k =
     (if is_ref k then JUndefined
      else case map_of L k of Some v \<Rightarrow> v | None \<Rightarrow> JUndefined)"

definition Map_set :: "ledger \<Rightarrow> jsval \<Rightarrow> jsval \<Rightarrow> ledger" where
  "Map_set L k v = (if is_ref k then L @ [(k, v)] else AList.update k v L)"

definition Map_size :: "ledger \<Rightarrow> nat" where
  "Map_size L = length L"

section \<open>The world outside the server\<close>

text \<open>
  The environment variables, the clock and the payment gateway. \<open>axios\<close> answers an HTTP
  call with the response's \<^verbatim>\<open>data\<close>, or with the exception that the call throws. A handler
  returns the list of the calls it made. Console output is not modelled.
\<close>

record datetime =
  getFullYear :: nat
  getMonth :: nat
  getDate :: nat
  getHours :: nat
  getMinutes :: nat
  getSeconds :: nat

datatype call =
    HttpGet string "(string \<times> string) list"
  | HttpPost string jsval "(string \<times> string) list"

record world =
  process_env :: "string \<Rightarrow> string option"
  clock :: datetime
  toISOString :: string
  axios :: "call \<Rightarrow> js_error + jsval"

text \<open>An environment variable is a string or undefined: \<^verbatim>\<open>!v\<close>, \<^verbatim>\<open>`${v}`\<close> and \<^verbatim>\<open>v || d\<close>.\<close>

definition falsy_env :: "string option \<Rightarrow> bool" where
  "falsy_env v = (v = None \<or> v = Some [])"

definition env_text :: "string option \<Rightarrow> string" where
  "env_text v = (case v of Some s \<Rightarrow> s | None \<Rightarrow> ''undefined'')"

definition env_or :: "string option \<Rightarrow> string \<Rightarrow> string" where
  "env_or v d = (if falsy_env v then d else env_text v)"

type_synonym response = "nat \<times> jsval"

subsection \<open>Helpers\<close>

text \<open>\<^verbatim>\<open>const pad = (n) => String(n).padStart(2, "0")\<close> and the timestamp \<^verbatim>\<open>YYYYMMDDHHmmss\<close>.\<close>

definition pad :: "nat \<Rightarrow> string" where
  "pad n = (let s = show_nat n in replicate (2 - length s) CHR ''0'' @ s)"

definition getTimestamp :: "datetime \<Rightarrow> string" where
  "getTimestamp now =
     show_nat (getFullYear now) @ pad (getMonth now + 1) @ pad (getDate now)
       @ pad (getHours now) @ pad (getMinutes now) @ pad (getSeconds now)"

text \<open>\<^verbatim>\<open>Buffer.from(s).toString("base64")\<close> on the bytes of \<open>s\<close>.\<close>

definition b64_char :: "nat \<Rightarrow> char" where
  "b64_char n = ''ABCDEFGHIJKLMNOPQRSTUVWXYZabcdefghijklmnopqrstuvwxyz0123456789+/'' ! n"

fun b64_enc :: "nat list \<Rightarrow> string" where
  "b64_enc (a # b # c # rest) =
     [b64_char (a div 4), b64_char ((a mod 4) * 16 + b div 16),
      b64_char ((b mod 16) * 4 + c div 64), b64_char (c mod 64)] @ b64_enc rest"
| "b64_enc [a, b] =
     [b64_char (a div 4), b64_char ((a mod 4) * 16 + b div 16),
      b64_char ((b mod 16) * 4), CHR ''='']"
| "b64_enc [a] = [b64_char (a div 4), b64_char ((a mod 4) * 16), CHR ''='', CHR ''='']"
| "b64_enc [] = []"

definition base64 :: "string \<Rightarrow> string" where
  "base64 s = b64_enc (map of_char s)"

definition buildPassword :: "string \<Rightarrow> string \<Rightarrow> string \<Rightarrow> string" where
  "buildPassword shortcode passkey timestamp = base64 (shortcode @ passkey @ timestamp)"

text \<open>
  \<^verbatim>\<open>getAccessToken\<close>: throws without the consumer key or secret (and makes no call), else
  one GET with Basic credentials; \<^verbatim>\<open>res.data.access_token\<close> throws when the response has no
  data.
\<close>

definition getAccessToken :: "world \<Rightarrow> (js_error + jsval) \<times> call list" where
  "getAccessToken w =
     (let key = process_env w ''MPESA_CONSUMER_KEY'';
          secret = process_env w ''MPESA_CONSUMER_SECRET''
      in if falsy_env key \<or> falsy_env secret
         then (Inl (JsError ''Missing MPESA_CONSUMER_KEY or MPESA_CONSUMER_SECRET'' JUndefined), [])
         else
           (let auth = base64 (env_text key @ '':'' @ env_text secret);
                url = ''https://sandbox.safaricom.co.ke/oauth/v1/generate?grant_type=client_credentials'';
                c = HttpGet url [(''Authorization'', ''Basic '' @ auth)]
            in (bindE (axios w c) (\<lambda>data. read_prop data ''access_token''), [c])))"

text \<open>The second server's \<^verbatim>\<open>getAccessToken\<close> differs in the message only.\<close>

definition getAccessToken2 :: "world \<Rightarrow> (js_error + jsval) \<times> call list" where
  "getAccessToken2 w =
     (let key = process_env w ''MPESA_CONSUMER_KEY'';
          secret = process_env w ''MPESA_CONSUMER_SECRET''
      in if falsy_env key \<or> falsy_env secret
         then (Inl (JsError ''Missing MPESA_CONSUMER_KEY/SECRET'' JUndefined), [])
         else
           (let auth = base64 (env_text key @ '':'' @ env_text secret);
                url = ''https://sandbox.safaricom.co.ke/oauth/v1/generate?grant_type=client_credentials'';
                c = HttpGet url [(''Authorization'', ''Basic '' @ auth)]
            in (bindE (axios w c) (\<lambda>data. read_prop data ''access_token''), [c])))"

definition stkUrl :: string where
  "stkUrl = ''https://sandbox.safaricom.co.ke/mpesa/stkpush/v1/processrequest''"

section \<open>The first server\<close>

subsection \<open>POST /api/payments/mpesa/stkpush\<close>

text \<open>
  The body of the \<^verbatim>\<open>try\<close> block. The result is the response and the ledger, or the
  exception that reaches \<^verbatim>\<open>catch\<close>; the calls made so far are returned in both cases.
  \<open>stk_payload\<close> is the request object and the headers of the POST, evaluated in the order
  of the source; \<open>stk_done\<close> is what follows the POST.
\<close>

definition stk_payload ::
  "string \<Rightarrow> string \<Rightarrow> string \<Rightarrow> string \<Rightarrow> string \<Rightarrow> jsval \<Rightarrow> jsval \<Rightarrow> jsval \<Rightarrow> jsval \<Rightarrow> jsval
     \<Rightarrow> js_error + jsval \<times> (string \<times> string) list" where
  "stk_payload shortcode password timestamp txType callbackUrl amount phone
       accountReference transactionDesc accessToken =
     bindE (Number amount) (\<lambda>amt.
     bindE (normalizePhone phone) (\<lambda>partyA.
     bindE (normalizePhone phone) (\<lambda>phoneNumber.
     bindE (String accessToken) (\<lambda>token.
       Inr (obj [(''BusinessShortCode'', StringToNumber shortcode),
                 (''Password'', JStr password),
                 (''Timestamp'', JStr timestamp),
                 (''TransactionType'', JStr txType),
                 (''Amount'', amt),
                 (''PartyA'', StringToNumber partyA),
                 (''PartyB'', StringToNumber shortcode),
                 (''PhoneNumber'', StringToNumber phoneNumber),
                 (''CallBackURL'', JStr callbackUrl),
                 (''AccountReference'', accountReference),
                 (''TransactionDesc'', transactionDesc)],
            [(''Authorization'', ''Bearer '' @ token),
             (''Content-Type'', ''application/json'')])))))"

definition stk_done :: "ledger \<Rightarrow> jsval \<Rightarrow> jsval \<Rightarrow> jsval \<Rightarrow> jsval \<Rightarrow> js_error + response \<times> ledger" where
  "stk_done L bookingId phone amount data =
     bindE
       (if truthy (opt_prop data ''CheckoutRequestID'') then
          bindE (normalizePhone phone) (\<lambda>p.
          bindE (Number amount) (\<lambda>amt.
            Inr (Map_set L (get_prop data ''CheckoutRequestID'')
                   (obj [(''status'', JStr ''PENDING''),
                         (''bookingId'', bookingId),
                         (''phone'', JStr p),
                         (''amount'', amt),
                         (''receipt'', JNull),
                         (''raw'', data)]))))
        else Inr L)
       (\<lambda>L'. Inr ((200, obj ([(''ok'', JBool True), (''bookingId'', bookingId)] @ spread data)), L'))"

definition stkpush_try :: "world \<Rightarrow> ledger \<Rightarrow> jsval \<Rightarrow> (js_error + response \<times> ledger) \<times> call list" where
  "stkpush_try w L reqBody =
     (let body = lor reqBody (JObj []);
          bookingId = dflt (get_prop body ''bookingId'') (JStr ''TEST-BOOKING'');
          phone = get_prop body ''phone'';
          amount = get_prop body ''amount'';
          accountReference = dflt (get_prop body ''accountReference'') (JStr ''TrackWash'');
          transactionDesc = dflt (get_prop body ''transactionDesc'') (JStr ''TrackWash Booking'')
      in
      if \<not> truthy phone then (Inr ((400, obj [(''error'', JStr ''phone is required'')]), L), [])
      else if \<not> truthy amount then (Inr ((400, obj [(''error'', JStr ''amount is required'')]), L), [])
      else
        (let shortcode = env_or (process_env w ''MPESA_SHORTCODE'') ''174379'';
             passkey = process_env w ''MPESA_PASSKEY'';
             callbackUrl = process_env w ''MPESA_CALLBACK_URL'';
             txType = env_or (process_env w ''MPESA_TRANSACTION_TYPE'') ''CustomerPayBillOnline''
         in
         if falsy_env passkey then (Inr ((500, obj [(''error'', JStr ''Missing MPESA_PASSKEY'')]), L), [])
         else if falsy_env callbackUrl
         then (Inr ((500, obj [(''error'', JStr ''Missing MPESA_CALLBACK_URL'')]), L), [])
         else
           (let timestamp = getTimestamp (clock w);
                password = buildPassword shortcode (env_text passkey) timestamp
            in
            case getAccessToken w of
              (Inl e, cs) \<Rightarrow> (Inl e, cs)
            | (Inr accessToken, cs) \<Rightarrow>
                (case stk_payload shortcode password timestamp txType (env_text callbackUrl)
                        amount phone accountReference transactionDesc accessToken of
                   Inl e \<Rightarrow> (Inl e, cs)
                 | Inr (payload, headers) \<Rightarrow>
                     (let c = HttpPost stkUrl payload headers in
                      case axios w c of
                        Inl e \<Rightarrow> (Inl e, cs @ [c])
                      | Inr data \<Rightarrow> (stk_done L bookingId phone amount data, cs @ [c]))))))"

text \<open>\<^verbatim>\<open>catch (err)\<close>: 500 with \<^verbatim>\<open>err?.response?.data || err.message\<close> as the details.\<close>

definition stk_failed :: "js_error \<Rightarrow> response" where
  "stk_failed err =
     (500, obj [(''ok'', JBool False),
                (''error'', JStr ''STK push failed''),
                (''details'', lor (response_data err) (JStr (message err)))])"

definition stkpush :: "world \<Rightarrow> ledger \<Rightarrow> jsval \<Rightarrow> response \<times> ledger \<times> call list" where
  "stkpush w L reqBody =
     (case stkpush_try w L reqBody of
        (Inl err, cs) \<Rightarrow> (stk_failed err, L, cs)
      | (Inr (res, L'), cs) \<Rightarrow> (res, L', cs))"

subsection \<open>POST /api/payments/mpesa/callback\<close>

text \<open>
  \<^verbatim>\<open>for (const it of items)\<close>: an array gives its elements and a string its characters; any
  other value that is not falsy is not iterable, and the loop throws.
\<close>

fun iterate :: "jsval \<Rightarrow> js_error + jsval list" where
  "iterate (JArr xs) = Inr xs"
| "iterate (JStr s) = Inr (map (\<lambda>c. JStr [c]) s)"
| "iterate v = Inl (TypeError ''items is not iterable'')"

text \<open>
  The loop over the callback's items, on the three variables it assigns. \<^verbatim>\<open>it.Name\<close>
  throws on a null item, \<^verbatim>\<open>String(it.Value)\<close> may throw.
\<close>

fun scan_items :: "jsval list \<Rightarrow> jsval \<times> jsval \<times> jsval \<Rightarrow> js_error + jsval \<times> jsval \<times> jsval" where
  "scan_items [] acc = Inr acc"
| "scan_items (it # its) (receipt, amount, phone) =
     bindE (read_prop it ''Name'') (\<lambda>name.
       (let receipt = (if name = JStr ''MpesaReceiptNumber'' then get_prop it ''Value'' else receipt);
            amount = (if name = JStr ''Amount'' then get_prop it ''Value'' else amount)
        in bindE (if name = JStr ''PhoneNumber''
                  then bindE (String (get_prop it ''Value'')) (\<lambda>s. Inr (JStr s))
                  else Inr phone)
             (\<lambda>phone. scan_items its (receipt, amount, phone))))"

text \<open>
  The \<^verbatim>\<open>if (checkoutRequestId) { ... }\<close> block, lines 187 to 206: the update of the ledger
  with the values read from the callback.
\<close>

definition applyCallbackResult ::
  "ledger \<Rightarrow> jsval \<Rightarrow> jsval \<Rightarrow> jsval \<Rightarrow> jsval \<Rightarrow> jsval \<Rightarrow> jsval \<Rightarrow> jsval \<Rightarrow> ledger" where
  "applyCallbackResult L checkoutRequestId resultCode resultDesc receipt amount phone body =
     (if truthy checkoutRequestId then
        (let existing = lor (Map_get L checkoutRequestId) (JObj []);
             status = (if resultCode = JNum 0 then JStr ''SUCCESS'' else JStr ''FAILED'')
         in Map_set L checkoutRequestId
              (obj (spread existing @
                 [(''status'', status),
                  (''receipt'', lor receipt (lor (get_prop existing ''receipt'') JNull)),
                  (''amount'', coalesce amount (coalesce (get_prop existing ''amount'') JNull)),
                  (''phone'', lor phone (lor (get_prop existing ''phone'') JNull)),
                  (''resultCode'', resultCode),
                  (''resultDesc'', resultDesc),
                  (''rawCallback'', body)])))
      else L)"

text \<open>What the handler reads from the body before the update: the identifier, the result
  code and description, and the three values of the loop.\<close>

definition extract_fields :: "jsval \<Rightarrow> js_error + jsval \<times> jsval \<times> jsval \<times> jsval \<times> jsval \<times> jsval" where
  "extract_fields body =
     (let stkCallback = opt_prop (opt_prop body ''Body'') ''stkCallback'';
          checkoutRequestId = opt_prop stkCallback ''CheckoutRequestID'';
          resultCode = opt_prop stkCallback ''ResultCode'';
          resultDesc = opt_prop stkCallback ''ResultDesc'';
          items = lor (opt_prop (opt_prop stkCallback ''CallbackMetadata'') ''Item'') (JArr [])
      in bindE (iterate items) (\<lambda>its.
         bindE (scan_items its (JNull, JNull, JNull)) (\<lambda>(receipt, amount, phone).
           Inr (checkoutRequestId, resultCode, resultDesc, receipt, amount, phone))))"

definition callback_try :: "ledger \<Rightarrow> jsval \<Rightarrow> js_error + ledger" where
  "callback_try L body =
     bindE (extract_fields body) (\<lambda>(checkoutRequestId, resultCode, resultDesc, receipt, amount, phone).
       Inr (applyCallbackResult L checkoutRequestId resultCode resultDesc receipt amount phone body))"

definition accepted :: response where
  "accepted = (200, obj [(''ResultCode'', JNum 0), (''ResultDesc'', JStr ''Accepted'')])"

definition callback :: "ledger \<Rightarrow> jsval \<Rightarrow> response \<times> ledger" where
  "callback L body =
     (case callback_try L body of
        Inl err \<Rightarrow> (accepted, L)
      | Inr L' \<Rightarrow> (accepted, L'))"

subsection \<open>The JSON middleware in front of the callback route\<close>

text \<open>
  \<^verbatim>\<open>app.use(express.json())\<close> (line 10, and line 241 in the second server) runs before every
  route. A request whose body it parses, or leaves alone because the request does not
  announce JSON, reaches the handler with the value of \<^verbatim>\<open>req.body\<close>. A request whose body
  fails to parse as JSON never reaches the handler: the middleware passes an error of status
  400 on, the program installs no error handler, and the default one of Express answers with
  that status and an HTML page (the text of the page is not modelled). The other refusals of
  the middleware (a body over the size limit, an unsupported encoding) are not modelled.
\<close>

datatype inbound = Parsed jsval | Unparsable

datatype reply = JsonReply response | ErrorPage nat

definition callback_route :: "ledger \<Rightarrow> inbound \<Rightarrow> reply \<times> ledger" where
  "callback_route L req =
     (case req of
        Unparsable \<Rightarrow> (ErrorPage 400, L)
      | Parsed body \<Rightarrow> (case callback L body of (res, L') \<Rightarrow> (JsonReply res, L')))"

subsection \<open>GET /api/payments/mpesa/status/:checkoutRequestId\<close>

text \<open>The route parameter is a string. The handler reads the ledger and returns it as it
  was.\<close>

definition status :: "ledger \<Rightarrow> string \<Rightarrow> response \<times> ledger" where
  "status L ident =
     (let tx = Map_get L (JStr ident) in
      if \<not> truthy tx then ((404, obj [(''ok'', JBool False), (''error'', JStr ''Not found'')]), L)
      else ((200, obj ([(''ok'', JBool True), (''checkoutRequestId'', JStr ident)] @ spread tx)), L))"

text \<open>The ledgers that the first server can hold: empty at the start, then changed by the
  two POST handlers only.\<close>

inductive reachable :: "ledger \<Rightarrow> bool" where
  start: "reachable []"
| after_stkpush: "reachable L \<Longrightarrow> stkpush w L reqBody = (res, L', cs) \<Longrightarrow> reachable L'"
| after_callback: "reachable L \<Longrightarrow> callback L reqBody = (res, L') \<Longrightarrow> reachable L'"

section \<open>The second server\<close>

text \<open>
  The second program of the source file has the same three routes. It reads the amount from
  \<^verbatim>\<open>amountKes\<close>, stamps its records with the time, and its callback writes the paid amount
  and phone to fields of their own.
\<close>

definition timestamp :: "datetime \<Rightarrow> string" where
  "timestamp d =
     show_nat (getFullYear d) @ pad (getMonth d + 1) @ pad (getDate d)
       @ pad (getHours d) @ pad (getMinutes d) @ pad (getSeconds d)"

definition stk_payload2 ::
  "string \<Rightarrow> string \<Rightarrow> string \<Rightarrow> string \<Rightarrow> jsval \<Rightarrow> jsval \<Rightarrow> jsval \<Rightarrow> jsval
     \<Rightarrow> js_error + jsval \<times> (string \<times> string) list" where
  "stk_payload2 shortcode password ts callbackUrl amountKes phone bookingId token =
     bindE (Number amountKes) (\<lambda>amt.
     bindE (normalizePhone2 phone) (\<lambda>partyA.
     bindE (normalizePhone2 phone) (\<lambda>phoneNumber.
     bindE (String token) (\<lambda>bearer.
       Inr (obj [(''BusinessShortCode'', StringToNumber shortcode),
                 (''Password'', JStr password),
                 (''Timestamp'', JStr ts),
                 (''TransactionType'', JStr ''CustomerPayBillOnline''),
                 (''Amount'', amt),
                 (''PartyA'', StringToNumber partyA),
                 (''PartyB'', StringToNumber shortcode),
                 (''PhoneNumber'', StringToNumber phoneNumber),
                 (''CallBackURL'', JStr callbackUrl),
                 (''AccountReference'', bookingId),
                 (''TransactionDesc'', JStr ''TrackWash Booking'')],
            [(''Authorization'', ''Bearer '' @ bearer)])))))"

definition stk_done2 :: "world \<Rightarrow> ledger \<Rightarrow> jsval \<Rightarrow> jsval \<Rightarrow> jsval \<Rightarrow> jsval \<Rightarrow> js_error + response \<times> ledger" where
  "stk_done2 w L bookingId phone amountKes data =
     bindE
       (if truthy (opt_prop data ''CheckoutRequestID'') then
          bindE (normalizePhone2 phone) (\<lambda>p.
          bindE (Number amountKes) (\<lambda>amt.
            Inr (Map_set L (get_prop data ''CheckoutRequestID'')
                   (obj [(''status'', JStr ''PENDING''),
                         (''bookingId'', bookingId),
                         (''phone'', JStr p),
                         (''amountKes'', amt),
                         (''createdAt'', JStr (toISOString w)),
                         (''raw'', data)]))))
        else Inr L)
       (\<lambda>L'. Inr ((200, obj ([(''ok'', JBool True)] @ spread data)), L'))"

definition stkpush_try2 :: "world \<Rightarrow> ledger \<Rightarrow> jsval \<Rightarrow> (js_error + response \<times> ledger) \<times> call list" where
  "stkpush_try2 w L reqBody =
     (let body = lor reqBody (JObj []);
          bookingId = dflt (get_prop body ''bookingId'') (JStr ''TEST'');
          phone = get_prop body ''phone'';
          amountKes = get_prop body ''amountKes''
      in
      if \<not> truthy phone
      then (Inr ((400, obj [(''ok'', JBool False), (''error'', JStr ''phone required'')]), L), [])
      else if \<not> truthy amountKes
      then (Inr ((400, obj [(''ok'', JBool False), (''error'', JStr ''amountKes required'')]), L), [])
      else
        (let shortcode = env_or (process_env w ''MPESA_SHORTCODE'') ''174379'';
             passkey = process_env w ''MPESA_PASSKEY'';
             callbackUrl = process_env w ''MPESA_CALLBACK_URL''
         in
         if falsy_env passkey
         then (Inr ((500, obj [(''ok'', JBool False), (''error'', JStr ''Missing MPESA_PASSKEY'')]), L), [])
         else if falsy_env callbackUrl
         then (Inr ((500, obj [(''ok'', JBool False), (''error'', JStr ''Missing MPESA_CALLBACK_URL'')]), L), [])
         else
           (let ts = timestamp (clock w);
                password = buildPassword shortcode (env_text passkey) ts
            in
            case getAccessToken2 w of
              (Inl e, cs) \<Rightarrow> (Inl e, cs)
            | (Inr token, cs) \<Rightarrow>
                (case stk_payload2 shortcode password ts (env_text callbackUrl)
                        amountKes phone bookingId token of
                   Inl e \<Rightarrow> (Inl e, cs)
                 | Inr (payload, headers) \<Rightarrow>
                     (let c = HttpPost stkUrl payload headers in
                      case axios w c of
                        Inl e \<Rightarrow> (Inl e, cs @ [c])
                      | Inr data \<Rightarrow> (stk_done2 w L bookingId phone amountKes data, cs @ [c]))))))"

definition stkpush2 :: "world \<Rightarrow> ledger \<Rightarrow> jsval \<Rightarrow> response \<times> ledger \<times> call list" where
  "stkpush2 w L reqBody =
     (case stkpush_try2 w L reqBody of
        (Inl err, cs) \<Rightarrow> (stk_failed err, L, cs)
      | (Inr (res, L'), cs) \<Rightarrow> (res, L', cs))"

text \<open>The callback: the same reading of the body, with the loop's variables called
  \<^verbatim>\<open>receipt\<close>, \<^verbatim>\<open>paidAmount\<close> and \<^verbatim>\<open>paidPhone\<close>; then lines 375 to 392.\<close>

definition applyCallbackResult2 ::
  "world \<Rightarrow> ledger \<Rightarrow> jsval \<Rightarrow> jsval \<Rightarrow> jsval \<Rightarrow> jsval \<Rightarrow> jsval \<Rightarrow> jsval \<Rightarrow> jsval \<Rightarrow> ledger" where
  "applyCallbackResult2 w L checkoutRequestId resultCode resultDesc receipt paidAmount paidPhone body =
     (if truthy checkoutRequestId then
        (let existing = lor (Map_get L checkoutRequestId) (JObj []);
             status = (if resultCode = JNum 0 then JStr ''SUCCESS'' else JStr ''FAILED'')
         in Map_set L checkoutRequestId
              (obj (spread existing @
                 [(''status'', status),
                  (''resultCode'', resultCode),
                  (''resultDesc'', resultDesc),
                  (''receipt'', lor receipt JNull),
                  (''paidAmount'', coalesce paidAmount JNull),
                  (''paidPhone'', lor paidPhone JNull),
                  (''callbackAt'', JStr (toISOString w)),
                  (''rawCallback'', body)])))
      else L)"

definition callback_try2 :: "world \<Rightarrow> ledger \<Rightarrow> jsval \<Rightarrow> js_error + ledger" where
  "callback_try2 w L body =
     bindE (extract_fields body) (\<lambda>(checkoutRequestId, resultCode, resultDesc, receipt, paidAmount, paidPhone).
       Inr (applyCallbackResult2 w L checkoutRequestId resultCode resultDesc receipt paidAmount paidPhone body))"

definition callback2 :: "world \<Rightarrow> ledger \<Rightarrow> jsval \<Rightarrow> response \<times> ledger" where
  "callback2 w L body =
     (case callback_try2 w L body of
        Inl err \<Rightarrow> (accepted, L)
      | Inr L' \<Rightarrow> (accepted, L'))"

definition callback_route2 :: "world \<Rightarrow> ledger \<Rightarrow> inbound \<Rightarrow> reply \<times> ledger" where
  "callback_route2 w L req =
     (case req of
        Unparsable \<Rightarrow> (ErrorPage 400, L)
      | Parsed body \<Rightarrow> (case callback2 w L body of (res, L') \<Rightarrow> (JsonReply res, L')))"

definition status2 :: "ledger \<Rightarrow> string \<Rightarrow> response \<times> ledger" where
  "status2 L ident =
     (let tx = Map_get L (JStr ident) in
      if \<not> truthy tx then ((404, obj [(''ok'', JBool False), (''error'', JStr ''Not found'')]), L)
      else ((200, obj ([(''ok'', JBool True), (''checkoutRequestId'', JStr ident)] @ spread tx)), L))"

inductive reachable2 :: "ledger \<Rightarrow> bool" where
  start2: "reachable2 []"
| after_stkpush2: "reachable2 L \<Longrightarrow> stkpush2 w L reqBody = (res, L', cs) \<Longrightarrow> reachable2 L'"
| after_callback2: "reachable2 L \<Longrightarrow> callback2 w L reqBody = (res, L') \<Longrightarrow> reachable2 L'"

section \<open>Notions used by the statements\<close>

text \<open>
  The gateway's answer to an initiation: the data of the POST's response, when the handler
  made its two calls (the token GET and the POST) and the POST did not throw.
\<close>

definition gateway_answer :: "world \<Rightarrow> call list \<Rightarrow> jsval option" where
  "gateway_answer w cs =
     (case cs of
        [HttpGet url headers, c] \<Rightarrow> (case axios w c of Inr data \<Rightarrow> Some data | Inl e \<Rightarrow> None)
      | _ \<Rightarrow> None)"

text \<open>The own properties of a value, as a spread copies them.\<close>

definition own_prop :: "jsval \<Rightarrow> string \<Rightarrow> jsval option" where
  "own_prop v k = map_of (rev (spread v)) k"

text \<open>A record of the ledger is an object, and it has no property called \<^verbatim>\<open>ok\<close> or
  \<^verbatim>\<open>checkoutRequestId\<close>. Every reachable ledger is made of such records.\<close>

definition is_record :: "jsval \<Rightarrow> bool" where
  "is_record v =
     (case v of
        JObj kvs \<Rightarrow> ''ok'' \<notin> fst ` set kvs \<and> ''checkoutRequestId'' \<notin> fst ` set kvs
      | _ \<Rightarrow> False)"

definition records_only :: "ledger \<Rightarrow> bool" where
  "records_only L = list_all (\<lambda>(k, v). is_record v) L"

section \<open>Example inputs\<close>

text \<open>
  The end-to-end example of the specification: a gateway that issues the identifier
  \<^verbatim>\<open>ws_1\<close>, the request \<^verbatim>\<open>{phone: "0712345678", amount: 10}\<close> (with \<^verbatim>\<open>amountKes\<close> for the
  second server), the successful callback with receipt \<^verbatim>\<open>R123\<close>, and a callback that reports
  a cancelled payment.
\<close>

definition example_world :: world where
  "example_world =
     \<lparr> process_env = [''MPESA_PASSKEY'' \<mapsto> ''pk'', ''MPESA_CALLBACK_URL'' \<mapsto> ''https://cb'',
                      ''MPESA_CONSUMER_KEY'' \<mapsto> ''key'', ''MPESA_CONSUMER_SECRET'' \<mapsto> ''sec''],
       clock = \<lparr> getFullYear = 2024, getMonth = 0, getDate = 5,
                 getHours = 9, getMinutes = 3, getSeconds = 7 \<rparr>,
       toISOString = ''2024-01-05T06:03:07.000Z'',
       axios = (\<lambda>c. case c of
                  HttpGet url headers \<Rightarrow> Inr (JObj [(''access_token'', JStr ''tok'')])
                | HttpPost url payload headers \<Rightarrow> Inr (JObj [(''CheckoutRequestID'', JStr ''ws_1'')])) \<rparr>"

definition example_request :: jsval where
  "example_request = JObj [(''phone'', JStr ''0712345678''), (''amount'', JNum 10)]"

definition example_request2 :: jsval where
  "example_request2 = JObj [(''phone'', JStr ''0712345678''), (''amountKes'', JNum 10)]"

definition example_success :: jsval where
  "example_success =
     JObj [(''Body'', JObj [(''stkCallback'', JObj
       [(''CheckoutRequestID'', JStr ''ws_1''),
        (''ResultCode'', JNum 0),
        (''CallbackMetadata'', JObj [(''Item'', JArr
           [JObj [(''Name'', JStr ''MpesaReceiptNumber''), (''Value'', JStr ''R123'')]])])])])]"

definition example_cancelled :: jsval where
  "example_cancelled =
     JObj [(''Body'', JObj [(''stkCallback'', JObj
       [(''CheckoutRequestID'', JStr ''ws_1''),
        (''ResultCode'', JNum 1032),
        (''ResultDesc'', JStr ''Request cancelled by user'')])])]"

text \<open>A ledger with the pending record of the example, as the first server stores it, and
  one as the second server stores it.\<close>

definition example_ledger :: ledger where
  "example_ledger =
     [(JStr ''ws_1'',
       JObj [(''status'', JStr ''PENDING''), (''bookingId'', JStr ''TEST-BOOKING''),
             (''phone'', JStr ''254712345678''), (''amount'', JNum 10),
             (''receipt'', JNull), (''raw'', JObj [(''CheckoutRequestID'', JStr ''ws_1'')])])]"

definition example_ledger2 :: ledger where
  "example_ledger2 =
     [(JStr ''ws_1'',
       JObj [(''status'', JStr ''PENDING''), (''bookingId'', JStr ''TEST''),
             (''phone'', JStr ''254712345678''), (''amountKes'', JNum 10),
             (''createdAt'', JStr ''2024-01-05T06:03:07.000Z''),
             (''raw'', JObj [(''CheckoutRequestID'', JStr ''ws_1'')])])]"

text \<open>The example's world without the passkey, and without the callback URL; a request
  whose amount is 0, under both names of the field; a gateway whose answer has no identifier
  but a field \<^verbatim>\<open>ok\<close>, and one whose answer has a response code only; and the example's
  request with the amount under both names.\<close>

definition example_world_no_passkey :: world where
  "example_world_no_passkey =
     example_world \<lparr> process_env := (process_env example_world)(''MPESA_PASSKEY'' := None) \<rparr>"

definition example_world_no_callback :: world where
  "example_world_no_callback =
     example_world \<lparr> process_env := (process_env example_world)(''MPESA_CALLBACK_URL'' := None) \<rparr>"

definition example_zero_amount :: jsval where
  "example_zero_amount =
     JObj [(''phone'', JStr ''0712345678''), (''amount'', JNum 0), (''amountKes'', JNum 0)]"

definition example_world_ok_false :: world where
  "example_world_ok_false =
     example_world \<lparr> axios := (\<lambda>c. case c of
                  HttpGet url headers \<Rightarrow> Inr (JObj [(''access_token'', JStr ''tok'')])
                | HttpPost url payload headers \<Rightarrow> Inr (JObj [(''ok'', JBool False)])) \<rparr>"

definition example_world_no_id :: world where
  "example_world_no_id =
     example_world \<lparr> axios := (\<lambda>c. case c of
                  HttpGet url headers \<Rightarrow> Inr (JObj [(''access_token'', JStr ''tok'')])
                | HttpPost url payload headers \<Rightarrow> Inr (JObj [(''ResponseCode'', JStr ''1'')])) \<rparr>"

definition example_both :: jsval where
  "example_both =
     JObj [(''phone'', JStr ''0712345678''), (''amount'', JNum 10), (''amountKes'', JNum 10)]"

section \<open>Basic facts\<close>

subsection \<open>Objects and the Map\<close>

lemma map_of_rev_distinct: "distinct (map fst xs) \<Longrightarrow> map_of (rev xs) = map_of xs"
proof (induction xs)
  case Nil
  then show ?case by simp
next
  case (Cons a xs)
  then have "map_of xs (fst a) = None" by (simp add: map_of_eq_None_iff)
  with Cons show ?case
    by (cases a) (auto simp: fun_eq_iff map_add_def split: option.splits)
qed

lemma build_map_of:
  "map_of (foldl (\<lambda>acc (k, v). AList.update k v acc) acc es) = map_of acc ++ map_of (rev es)"
proof (induction es arbitrary: acc)
  case Nil
  then show ?case by simp
next
  case (Cons e es)
  show ?case
    by (cases e) (simp add: Cons.IH update_conv' fun_eq_iff map_add_def split: option.splits)
qed

lemma build_distinct:
  "distinct (map fst acc) \<Longrightarrow> distinct (map fst (foldl (\<lambda>acc (k, v). AList.update k v acc) acc es))"
proof (induction es arbitrary: acc)
  case Nil
  then show ?case by simp
next
  case (Cons e es)
  then show ?case by (cases e) (simp add: distinct_update)
qed

lemma get_prop_obj: "get_prop (obj es) k = get_prop (JObj es) k"
proof -
  let ?b = "foldl (\<lambda>acc (k, v). AList.update k v acc) [] es"
  have "distinct (map fst ?b)" by (rule build_distinct) simp
  then have "map_of (rev ?b) = map_of (rev es)"
    by (simp add: map_of_rev_distinct build_map_of)
  then show ?thesis by (simp add: obj_def)
qed

lemma get_prop_append:
  "get_prop (JObj (xs @ ys)) k =
     (case map_of (rev ys) k of Some v \<Rightarrow> v | None \<Rightarrow> get_prop (JObj xs) k)"
  by (simp add: map_add_def split: option.splits)

lemma Map_get_set_same: "\<not> is_ref k \<Longrightarrow> Map_get (Map_set L k v) k = v"
  by (simp add: Map_get_def Map_set_def update_conv')

lemma Map_get_set_other: "k' \<noteq> k \<Longrightarrow> Map_get (Map_set L k v) k' = Map_get L k'"
  by (auto simp: Map_get_def Map_set_def update_conv' map_add_def split: option.splits)

lemma Map_has_set: "Map_has (Map_set L k v) k' = (Map_has L k' \<or> (k' = k \<and> \<not> is_ref k))"
  by (auto simp: Map_has_def Map_set_def update_conv' map_add_def split: option.splits)

lemma length_AList_update:
  "length (AList.update k v al) = (if k \<in> fst ` set al then length al else Suc (length al))"
  by (induction al) auto

lemma Map_size_set:
  "Map_size (Map_set L k v) = (if Map_has L k then Map_size L else Suc (Map_size L))"
  by (auto simp: Map_size_def Map_set_def Map_has_def map_of_eq_None_iff length_AList_update)


subsection \<open>Trimming\<close>

lemma trim_id: "s \<noteq> [] \<Longrightarrow> \<not> is_space (hd s) \<Longrightarrow> \<not> is_space (last s) \<Longrightarrow> trim s = s"
proof -
  assume a: "s \<noteq> []" "\<not> is_space (hd s)" "\<not> is_space (last s)"
  have 1: "dropWhile is_space s = s"
    using a by (simp add: dropWhile_eq_self_iff)
  have 2: "dropWhile is_space (rev s) = rev s"
    using a by (simp add: dropWhile_eq_self_iff hd_rev)
  show ?thesis by (simp add: trim_def 1 2)
qed

lemma digit_not_space: "is_digit c \<Longrightarrow> \<not> is_space c"
  by (auto simp: is_digit_def is_space_def)

lemma trim_digits: "all_digits s \<Longrightarrow> trim s = s"
proof (cases "s = []")
  case True
  then show ?thesis by (simp add: trim_def)
next
  case False
  assume "all_digits s"
  with False have "is_digit (hd s)" "is_digit (last s)"
    by (simp_all add: all_digits_def list_all_iff)
  with False show ?thesis
    by (simp add: trim_id digit_not_space)
qed

lemma trim_plus: "all_digits ds \<Longrightarrow> ds \<noteq> [] \<Longrightarrow> trim (CHR ''+'' # ds) = CHR ''+'' # ds"
proof (rule trim_id)
  assume a: "all_digits ds" "ds \<noteq> []"
  then have "is_digit (last ds)" by (simp add: all_digits_def list_all_iff)
  then show "\<not> is_space (last (CHR ''+'' # ds))" using a by (simp add: digit_not_space)
qed (simp_all add: is_space_def)

lemma normalize_steps_spec: "normalize_steps s = spec_pipeline (trim s)"
  by (cases "trim s") (auto simp: normalize_steps_def spec_pipeline_def Let_def startsWith_def slice1_def)

lemma accepted_trim: "accepted_shape s \<Longrightarrow> trim s = s"
proof -
  assume a: "accepted_shape s"
  show ?thesis
  proof (cases "all_digits s")
    case True
    then show ?thesis by (rule trim_digits)
  next
    case False
    with a have p: "startsWith s ''+254''" and l: "length s = 13" and d: "all_digits (drop 1 s)"
      by (auto simp: accepted_shape_def)
    from p obtain ds where s: "s = CHR ''+'' # ds" by (auto simp: startsWith_def prefix_def)
    with l d have "all_digits ds" "ds \<noteq> []" by auto
    then show ?thesis unfolding s by (rule trim_plus)
  qed
qed

lemma accepted_canonical: "accepted_shape s \<Longrightarrow> canonical (spec_pipeline s)"
proof -
  assume a: "accepted_shape s"
  have d: "all_digits ''254''" by (simp add: all_digits_def is_digit_def)
  from a consider
      (zero) ds where "s = CHR ''0'' # ds" "length ds = 9" "all_digits ds"
    | (seven) ds where "s = CHR ''7'' # ds" "length ds = 8" "all_digits ds"
    | (full) ds where "s = ''254'' @ ds" "length ds = 9" "all_digits ds"
    | (plus) ds where "s = ''+254'' @ ds" "length ds = 9" "all_digits ds"
    unfolding accepted_shape_def startsWith_def prefix_def
    by (auto simp: all_digits_def)
  then show ?thesis
    by cases (auto simp: canonical_def spec_pipeline_def startsWith_def slice1_def
        all_digits_def is_digit_def)
qed


subsection \<open>The callback handlers\<close>

text \<open>The handler applies the update when the reading of the body does not throw, and
  leaves the ledger alone when it does.\<close>

lemma extract_success: "extract_fields example_success = Inr (JStr ''ws_1'', JNum 0, JUndefined, JStr ''R123'', JNull, JNull)"
  by code_simp

lemma extract_cancelled: "extract_fields example_cancelled = Inr (JStr ''ws_1'', JNum 1032, JStr ''Request cancelled by user'', JNull, JNull, JNull)"
  by code_simp

lemma callback_applied:
  "extract_fields body = Inr (cid, rc, rd, receipt, amount, phone) \<Longrightarrow>
   callback L body = (accepted, applyCallbackResult L cid rc rd receipt amount phone body)"
  by (simp add: callback_def callback_try_def)

lemma callback_thrown: "extract_fields body = Inl e \<Longrightarrow> callback L body = (accepted, L)"
  by (simp add: callback_def callback_try_def)

lemma callback2_applied:
  "extract_fields body = Inr (cid, rc, rd, receipt, amount, phone) \<Longrightarrow>
   callback2 w L body = (accepted, applyCallbackResult2 w L cid rc rd receipt amount phone body)"
  by (simp add: callback2_def callback_try2_def)

lemma callback2_thrown: "extract_fields body = Inl e \<Longrightarrow> callback2 w L body = (accepted, L)"
  by (simp add: callback2_def callback_try2_def)

lemma Map_has_not_ref: "Map_has L k \<Longrightarrow> \<not> is_ref k"
  by (simp add: Map_has_def)

lemma applied_status:
  "truthy cid \<Longrightarrow> \<not> is_ref cid \<Longrightarrow>
   get_prop (Map_get (applyCallbackResult L cid rc rd receipt amount phone body) cid) ''status''
     = (if rc = JNum 0 then JStr ''SUCCESS'' else JStr ''FAILED'')"
  by (simp add: applyCallbackResult_def Let_def Map_get_set_same get_prop_obj get_prop_append)

lemma applied2_status:
  "truthy cid \<Longrightarrow> \<not> is_ref cid \<Longrightarrow>
   get_prop (Map_get (applyCallbackResult2 w L cid rc rd receipt amount phone body) cid) ''status''
     = (if rc = JNum 0 then JStr ''SUCCESS'' else JStr ''FAILED'')"
  by (simp add: applyCallbackResult2_def Let_def Map_get_set_same get_prop_obj get_prop_append)

lemma applied_fields:
  assumes "truthy cid" "\<not> is_ref cid"
  shows "get_prop (Map_get (applyCallbackResult L cid rc rd receipt amount phone body) cid) ''resultCode'' = rc"
    and "get_prop (Map_get (applyCallbackResult L cid rc rd receipt amount phone body) cid) ''resultDesc'' = rd"
    and "get_prop (Map_get (applyCallbackResult L cid rc rd receipt amount phone body) cid) ''rawCallback'' = body"
    and "get_prop (Map_get (applyCallbackResult L cid rc rd receipt amount phone body) cid) ''receipt''
           = lor receipt (lor (get_prop (lor (Map_get L cid) (JObj [])) ''receipt'') JNull)"
    and "get_prop (Map_get (applyCallbackResult L cid rc rd receipt amount phone body) cid) ''amount''
           = coalesce amount (coalesce (get_prop (lor (Map_get L cid) (JObj [])) ''amount'') JNull)"
    and "get_prop (Map_get (applyCallbackResult L cid rc rd receipt amount phone body) cid) ''phone''
           = lor phone (lor (get_prop (lor (Map_get L cid) (JObj [])) ''phone'') JNull)"
  using assms
  by (simp_all add: applyCallbackResult_def Let_def Map_get_set_same get_prop_obj get_prop_append)

lemma applied2_fields:
  assumes "truthy cid" "\<not> is_ref cid"
  shows "get_prop (Map_get (applyCallbackResult2 w L cid rc rd receipt amount phone body) cid) ''resultCode'' = rc"
    and "get_prop (Map_get (applyCallbackResult2 w L cid rc rd receipt amount phone body) cid) ''resultDesc'' = rd"
    and "get_prop (Map_get (applyCallbackResult2 w L cid rc rd receipt amount phone body) cid) ''rawCallback'' = body"
    and "get_prop (Map_get (applyCallbackResult2 w L cid rc rd receipt amount phone body) cid) ''receipt'' = lor receipt JNull"
    and "get_prop (Map_get (applyCallbackResult2 w L cid rc rd receipt amount phone body) cid) ''paidAmount'' = coalesce amount JNull"
    and "get_prop (Map_get (applyCallbackResult2 w L cid rc rd receipt amount phone body) cid) ''paidPhone'' = lor phone JNull"
    and "get_prop (Map_get (applyCallbackResult2 w L cid rc rd receipt amount phone body) cid) ''callbackAt'' = JStr (toISOString w)"
  using assms
  by (simp_all add: applyCallbackResult2_def Let_def Map_get_set_same get_prop_obj get_prop_append)

lemma applied2_kept:
  assumes "truthy cid" "Map_get L cid = JObj kvs"
    and "k \<notin> {''status'', ''resultCode'', ''resultDesc'', ''receipt'', ''paidAmount'', ''paidPhone'', ''callbackAt'', ''rawCallback''}"
  shows "get_prop (Map_get (applyCallbackResult2 w L cid rc rd receipt amount phone body) cid) k
           = get_prop (JObj kvs) k"
proof -
  have "\<not> is_ref cid" using assms(2) by (auto simp: Map_get_def split: if_splits)
  then show ?thesis using assms
    by (simp add: applyCallbackResult2_def Let_def Map_get_set_same get_prop_obj get_prop_append lor_def)
qed

lemma applied_kept:
  assumes "truthy cid" "Map_get L cid = JObj kvs"
    and "k \<notin> {''status'', ''receipt'', ''amount'', ''phone'', ''resultCode'', ''resultDesc'', ''rawCallback''}"
  shows "get_prop (Map_get (applyCallbackResult L cid rc rd receipt amount phone body) cid) k
           = get_prop (JObj kvs) k"
proof -
  have "\<not> is_ref cid" using assms(2) by (auto simp: Map_get_def split: if_splits)
  then show ?thesis using assms
    by (simp add: applyCallbackResult_def Let_def Map_get_set_same get_prop_obj get_prop_append lor_def)
qed

lemma applied_other:
  "k \<noteq> cid \<Longrightarrow> Map_get (applyCallbackResult L cid rc rd receipt amount phone body) k = Map_get L k"
  by (simp add: applyCallbackResult_def Let_def Map_get_set_other)

lemma applied2_other:
  "k \<noteq> cid \<Longrightarrow> Map_get (applyCallbackResult2 w L cid rc rd receipt amount phone body) k = Map_get L k"
  by (simp add: applyCallbackResult2_def Let_def Map_get_set_other)

lemma applied_size:
  "truthy cid \<Longrightarrow>
   Map_size (applyCallbackResult L cid rc rd receipt amount phone body)
     = (if Map_has L cid then Map_size L else Suc (Map_size L))"
  by (simp add: applyCallbackResult_def Let_def Map_size_set)

lemma applied2_size:
  "truthy cid \<Longrightarrow>
   Map_size (applyCallbackResult2 w L cid rc rd receipt amount phone body)
     = (if Map_has L cid then Map_size L else Suc (Map_size L))"
  by (simp add: applyCallbackResult2_def Let_def Map_size_set)

lemma applied_has:
  "truthy cid \<Longrightarrow> \<not> is_ref cid \<Longrightarrow> Map_has (applyCallbackResult L cid rc rd receipt amount phone body) cid"
  by (simp add: applyCallbackResult_def Let_def Map_has_set)

lemma applied2_has:
  "truthy cid \<Longrightarrow> \<not> is_ref cid \<Longrightarrow> Map_has (applyCallbackResult2 w L cid rc rd receipt amount phone body) cid"
  by (simp add: applyCallbackResult2_def Let_def Map_has_set)

lemma applied_falsy: "\<not> truthy cid \<Longrightarrow> applyCallbackResult L cid rc rd receipt amount phone body = L"
  by (simp add: applyCallbackResult_def)

lemma applied2_falsy: "\<not> truthy cid \<Longrightarrow> applyCallbackResult2 w L cid rc rd receipt amount phone body = L"
  by (simp add: applyCallbackResult2_def)


subsection \<open>The initiation handlers\<close>

lemma get_prop_lor_empty: "get_prop (lor b (JObj [])) k = get_prop b k"
  by (cases b) (simp_all add: lor_def)

lemma getAccessToken_calls:
  "getAccessToken w = (r, cs) \<Longrightarrow> (cs = [] \<and> (\<exists>e. r = Inl e)) \<or> (\<exists>url headers. cs = [HttpGet url headers])"
  by (auto simp: getAccessToken_def Let_def split: if_splits)

lemma getAccessToken2_calls:
  "getAccessToken2 w = (r, cs) \<Longrightarrow> (cs = [] \<and> (\<exists>e. r = Inl e)) \<or> (\<exists>url headers. cs = [HttpGet url headers])"
  by (auto simp: getAccessToken2_def Let_def split: if_splits)

lemma bindE_Inr: "bindE m f = Inr y \<longleftrightarrow> (\<exists>x. m = Inr x \<and> f x = Inr y)"
  by (cases m) simp_all

lemma stk_payload_Inr:
  "stk_payload sc pw ts tt cb amount phone ar td tok = Inr x \<Longrightarrow>
   \<exists>p amt. normalizePhone phone = Inr p \<and> Number amount = Inr amt"
  by (auto simp: stk_payload_def bindE_Inr)

lemma stk_payload2_Inr:
  "stk_payload2 sc pw ts cb amount phone bk tok = Inr x \<Longrightarrow>
   \<exists>p amt. normalizePhone2 phone = Inr p \<and> Number amount = Inr amt"
  by (auto simp: stk_payload2_def bindE_Inr)

text \<open>What the handler did when the gateway answered the POST.\<close>

lemma stkpush_try_answered:
  assumes "stkpush_try w L reqBody = (r, cs)" and "gateway_answer w cs = Some data"
  shows "truthy (get_prop reqBody ''phone'') \<and> truthy (get_prop reqBody ''amount'')
       \<and> (\<exists>p amt. normalizePhone (get_prop reqBody ''phone'') = Inr p
                \<and> Number (get_prop reqBody ''amount'') = Inr amt)
       \<and> r = stk_done L (dflt (get_prop reqBody ''bookingId'') (JStr ''TEST-BOOKING''))
                (get_prop reqBody ''phone'') (get_prop reqBody ''amount'') data"
proof -
  obtain t tcs where t: "getAccessToken w = (t, tcs)" by (cases "getAccessToken w")
  from getAccessToken_calls [OF t] show ?thesis
    using assms t
    by (auto simp: stkpush_try_def Let_def get_prop_lor_empty gateway_answer_def
        split: if_splits sum.splits prod.splits dest: stk_payload_Inr)
qed

lemma stkpush_try2_answered:
  assumes "stkpush_try2 w L reqBody = (r, cs)" and "gateway_answer w cs = Some data"
  shows "truthy (get_prop reqBody ''phone'') \<and> truthy (get_prop reqBody ''amountKes'')
       \<and> (\<exists>p amt. normalizePhone2 (get_prop reqBody ''phone'') = Inr p
                \<and> Number (get_prop reqBody ''amountKes'') = Inr amt)
       \<and> r = stk_done2 w L (dflt (get_prop reqBody ''bookingId'') (JStr ''TEST''))
                (get_prop reqBody ''phone'') (get_prop reqBody ''amountKes'') data"
proof -
  obtain t tcs where t: "getAccessToken2 w = (t, tcs)" by (cases "getAccessToken2 w")
  from getAccessToken2_calls [OF t] show ?thesis
    using assms t
    by (auto simp: stkpush_try2_def Let_def get_prop_lor_empty gateway_answer_def
        split: if_splits sum.splits prod.splits dest: stk_payload2_Inr)
qed

lemma stk_done_ok:
  "normalizePhone phone = Inr p \<Longrightarrow> Number amount = Inr amt \<Longrightarrow>
   stk_done L bookingId phone amount data =
     Inr ((200, obj ([(''ok'', JBool True), (''bookingId'', bookingId)] @ spread data)),
          if truthy (opt_prop data ''CheckoutRequestID'')
          then Map_set L (get_prop data ''CheckoutRequestID'')
                 (obj [(''status'', JStr ''PENDING''), (''bookingId'', bookingId),
                       (''phone'', JStr p), (''amount'', amt), (''receipt'', JNull), (''raw'', data)])
          else L)"
  by (simp add: stk_done_def)

lemma stk_done2_ok:
  "normalizePhone2 phone = Inr p \<Longrightarrow> Number amountKes = Inr amt \<Longrightarrow>
   stk_done2 w L bookingId phone amountKes data =
     Inr ((200, obj ([(''ok'', JBool True)] @ spread data)),
          if truthy (opt_prop data ''CheckoutRequestID'')
          then Map_set L (get_prop data ''CheckoutRequestID'')
                 (obj [(''status'', JStr ''PENDING''), (''bookingId'', bookingId),
                       (''phone'', JStr p), (''amountKes'', amt),
                       (''createdAt'', JStr (toISOString w)), (''raw'', data)])
          else L)"
  by (simp add: stk_done2_def)

lemma stkpush_answered:
  assumes "stkpush w L reqBody = (res, L', cs)" and "gateway_answer w cs = Some data"
  shows "\<exists>p amt. normalizePhone (get_prop reqBody ''phone'') = Inr p
           \<and> Number (get_prop reqBody ''amount'') = Inr amt
           \<and> res = (200, obj ([(''ok'', JBool True),
                               (''bookingId'', dflt (get_prop reqBody ''bookingId'') (JStr ''TEST-BOOKING''))]
                              @ spread data))
           \<and> L' = (if truthy (opt_prop data ''CheckoutRequestID'')
                   then Map_set L (get_prop data ''CheckoutRequestID'')
                          (obj [(''status'', JStr ''PENDING''),
                                (''bookingId'', dflt (get_prop reqBody ''bookingId'') (JStr ''TEST-BOOKING'')),
                                (''phone'', JStr p), (''amount'', amt), (''receipt'', JNull),
                                (''raw'', data)])
                   else L)"
proof -
  obtain r where r: "stkpush_try w L reqBody = (r, cs)"
    using assms(1) by (cases "stkpush_try w L reqBody") (auto simp: stkpush_def split: sum.splits)
  from stkpush_try_answered [OF r assms(2)] obtain p amt where
    pa: "normalizePhone (get_prop reqBody ''phone'') = Inr p"
        "Number (get_prop reqBody ''amount'') = Inr amt"
    and d: "r = stk_done L (dflt (get_prop reqBody ''bookingId'') (JStr ''TEST-BOOKING''))
                (get_prop reqBody ''phone'') (get_prop reqBody ''amount'') data"
    by blast
  show ?thesis
    using assms(1) pa unfolding stkpush_def r d stk_done_ok [OF pa]
    by auto
qed

lemma stkpush2_answered:
  assumes "stkpush2 w L reqBody = (res, L', cs)" and "gateway_answer w cs = Some data"
  shows "\<exists>p amt. normalizePhone2 (get_prop reqBody ''phone'') = Inr p
           \<and> Number (get_prop reqBody ''amountKes'') = Inr amt
           \<and> res = (200, obj ([(''ok'', JBool True)] @ spread data))
           \<and> L' = (if truthy (opt_prop data ''CheckoutRequestID'')
                   then Map_set L (get_prop data ''CheckoutRequestID'')
                          (obj [(''status'', JStr ''PENDING''),
                                (''bookingId'', dflt (get_prop reqBody ''bookingId'') (JStr ''TEST'')),
                                (''phone'', JStr p), (''amountKes'', amt),
                                (''createdAt'', JStr (toISOString w)), (''raw'', data)])
                   else L)"
proof -
  obtain r where r: "stkpush_try2 w L reqBody = (r, cs)"
    using assms(1) by (cases "stkpush_try2 w L reqBody") (auto simp: stkpush2_def split: sum.splits)
  from stkpush_try2_answered [OF r assms(2)] obtain p amt where
    pa: "normalizePhone2 (get_prop reqBody ''phone'') = Inr p"
        "Number (get_prop reqBody ''amountKes'') = Inr amt"
    and d: "r = stk_done2 w L (dflt (get_prop reqBody ''bookingId'') (JStr ''TEST''))
                (get_prop reqBody ''phone'') (get_prop reqBody ''amountKes'') data"
    by blast
  show ?thesis
    using assms(1) pa unfolding stkpush2_def r d stk_done2_ok [OF pa]
    by auto
qed

text \<open>The ledger after any initiation: as before, or with one pending record set.\<close>

lemma stk_done_ledger:
  "stk_done L bookingId phone amount data = Inr (res, L') \<Longrightarrow>
   L' = L \<or> (\<exists>k p amt. L' = Map_set L k
                 (obj [(''status'', JStr ''PENDING''), (''bookingId'', bookingId),
                       (''phone'', JStr p), (''amount'', amt), (''receipt'', JNull), (''raw'', data)]))"
  by (auto simp: stk_done_def bindE_Inr split: if_splits)

lemma stk_done2_ledger:
  "stk_done2 w L bookingId phone amountKes data = Inr (res, L') \<Longrightarrow>
   L' = L \<or> (\<exists>k p amt. L' = Map_set L k
                 (obj [(''status'', JStr ''PENDING''), (''bookingId'', bookingId),
                       (''phone'', JStr p), (''amountKes'', amt),
                       (''createdAt'', JStr (toISOString w)), (''raw'', data)]))"
  by (auto simp: stk_done2_def bindE_Inr split: if_splits)

lemma stkpush_ledger:
  assumes "stkpush w L reqBody = (res, L', cs)"
  shows "L' = L \<or> (\<exists>k bk p amt data. L' = Map_set L k
                 (obj [(''status'', JStr ''PENDING''), (''bookingId'', bk),
                       (''phone'', JStr p), (''amount'', amt), (''receipt'', JNull), (''raw'', data)]))"
proof (cases "stkpush_try w L reqBody")
  case (Pair r cs')
  show ?thesis
  proof (cases r)
    case (Inl e)
    with Pair assms show ?thesis by (simp add: stkpush_def)
  next
    case (Inr x)
    with Pair assms have x: "x = (res, L')" by (cases x) (simp add: stkpush_def)
    from Pair [unfolded Inr x] show ?thesis
      by (auto simp: stkpush_try_def Let_def split: if_splits prod.splits sum.splits
          dest!: stk_done_ledger) blast+
  qed
qed

lemma stkpush2_ledger:
  assumes "stkpush2 w L reqBody = (res, L', cs)"
  shows "L' = L \<or> (\<exists>k bk p amt data. L' = Map_set L k
                 (obj [(''status'', JStr ''PENDING''), (''bookingId'', bk),
                       (''phone'', JStr p), (''amountKes'', amt),
                       (''createdAt'', JStr (toISOString w)), (''raw'', data)]))"
proof (cases "stkpush_try2 w L reqBody")
  case (Pair r cs')
  show ?thesis
  proof (cases r)
    case (Inl e)
    with Pair assms show ?thesis by (simp add: stkpush2_def)
  next
    case (Inr x)
    with Pair assms have x: "x = (res, L')" by (cases x) (simp add: stkpush2_def)
    from Pair [unfolded Inr x] show ?thesis
      by (auto simp: stkpush_try2_def Let_def split: if_splits prod.splits sum.splits
          dest!: stk_done2_ledger) blast+
  qed
qed

subsection \<open>The records of a reachable ledger\<close>

lemma build_keys:
  "fst ` set (foldl (\<lambda>acc (k, v). AList.update k v acc) acc es) = fst ` set acc \<union> fst ` set es"
proof (induction es arbitrary: acc)
  case Nil
  then show ?case by simp
next
  case (Cons e es)
  show ?case by (cases e) (auto simp: Cons.IH dom_update)
qed

lemma is_record_obj:
  "is_record (obj es) \<longleftrightarrow> ''ok'' \<notin> fst ` set es \<and> ''checkoutRequestId'' \<notin> fst ` set es"
  by (simp add: is_record_def obj_def build_keys)

lemma set_update_cases: "x \<in> set (AList.update k v al) \<Longrightarrow> x \<in> set al \<or> x = (k, v)"
  by (induction al) (auto split: if_splits)

lemma records_only_Map_set: "records_only L \<Longrightarrow> is_record v \<Longrightarrow> records_only (Map_set L k v)"
  by (auto simp: records_only_def Map_set_def list_all_iff dest: set_update_cases)

lemma records_only_Map_get:
  "records_only L \<Longrightarrow> Map_get L k = JUndefined \<or> is_record (Map_get L k)"
  by (auto simp: records_only_def Map_get_def list_all_iff split: option.splits dest!: map_of_SomeD)

lemma is_record_cases: "is_record v \<Longrightarrow> \<exists>kvs. v = JObj kvs"
  by (cases v) (simp_all add: is_record_def)

lemma records_only_existing:
  "records_only L \<Longrightarrow> is_record (lor (Map_get L k) (JObj []))"
  using records_only_Map_get [of L k]
  by (auto simp: lor_def is_record_def dest: is_record_cases)

lemma records_only_has:
  "records_only L \<Longrightarrow> Map_has L k \<Longrightarrow> is_record (Map_get L k)"
proof -
  assume a: "records_only L" "Map_has L k"
  then obtain v where v: "map_of L k = Some v" and k: "\<not> is_ref k"
    by (auto simp: Map_has_def)
  from v have "(k, v) \<in> set L" by (rule map_of_SomeD)
  with a(1) have "is_record v" by (auto simp: records_only_def list_all_iff)
  with v k show ?thesis by (simp add: Map_get_def)
qed

lemma records_only_applied:
  assumes "records_only L"
  shows "records_only (applyCallbackResult L cid rc rd receipt amount phone body)"
proof -
  have "is_record (lor (Map_get L cid) (JObj []))"
    by (rule records_only_existing [OF assms])
  then obtain kvs where e: "lor (Map_get L cid) (JObj []) = JObj kvs" and r: "is_record (JObj kvs)"
    using is_record_cases by fastforce
  from r have keys: "''ok'' \<notin> fst ` set kvs" "''checkoutRequestId'' \<notin> fst ` set kvs"
    by (simp_all add: is_record_def)
  show ?thesis
    by (auto simp: applyCallbackResult_def Let_def e is_record_obj keys
        intro!: records_only_Map_set assms)
qed

lemma records_only_applied2:
  assumes "records_only L"
  shows "records_only (applyCallbackResult2 w L cid rc rd receipt amount phone body)"
proof -
  have "is_record (lor (Map_get L cid) (JObj []))"
    by (rule records_only_existing [OF assms])
  then obtain kvs where e: "lor (Map_get L cid) (JObj []) = JObj kvs" and r: "is_record (JObj kvs)"
    using is_record_cases by fastforce
  from r have keys: "''ok'' \<notin> fst ` set kvs" "''checkoutRequestId'' \<notin> fst ` set kvs"
    by (simp_all add: is_record_def)
  show ?thesis
    by (auto simp: applyCallbackResult2_def Let_def e is_record_obj keys
        intro!: records_only_Map_set assms)
qed

lemma records_only_callback: "records_only L \<Longrightarrow> records_only (snd (callback L body))"
  by (auto simp: callback_def callback_try_def bindE_Inr records_only_applied split: sum.splits)

lemma records_only_callback2: "records_only L \<Longrightarrow> records_only (snd (callback2 w L body))"
  by (auto simp: callback2_def callback_try2_def bindE_Inr records_only_applied2 split: sum.splits)

lemma records_only_stkpush:
  "records_only L \<Longrightarrow> stkpush w L reqBody = (res, L', cs) \<Longrightarrow> records_only L'"
  by (auto dest!: stkpush_ledger intro!: records_only_Map_set simp: is_record_obj)

lemma records_only_stkpush2:
  "records_only L \<Longrightarrow> stkpush2 w L reqBody = (res, L', cs) \<Longrightarrow> records_only L'"
  by (auto dest!: stkpush2_ledger intro!: records_only_Map_set simp: is_record_obj)

lemma reachable_records_only: "reachable L \<Longrightarrow> records_only L"
proof (induction rule: reachable.induct)
  case start
  show ?case by (simp add: records_only_def)
next
  case (after_stkpush L w reqBody res L' cs)
  then show ?case by (auto intro: records_only_stkpush)
next
  case (after_callback L reqBody res L')
  from records_only_callback [OF after_callback.IH, of reqBody] after_callback.hyps(2)
  show ?case by simp
qed

lemma reachable2_records_only: "reachable2 L \<Longrightarrow> records_only L"
proof (induction rule: reachable2.induct)
  case start2
  show ?case by (simp add: records_only_def)
next
  case (after_stkpush2 L w reqBody res L' cs)
  then show ?case by (auto intro: records_only_stkpush2)
next
  case (after_callback2 L w reqBody res L')
  from records_only_callback2 [OF after_callback2.IH, of w reqBody] after_callback2.hyps(2)
  show ?case by simp
qed

lemma map_of_rev_None: "k \<notin> fst ` set kvs \<Longrightarrow> map_of (rev kvs) k = None"
  by (simp add: map_of_eq_None_iff)

lemma status_unknown:
  "\<not> Map_has L (JStr ident) \<Longrightarrow>
   status L ident = ((404, JObj [(''ok'', JBool False), (''error'', JStr ''Not found'')]), L)"
  by (simp add: status_def Map_has_def Map_get_def obj_def)

lemma status_known:
  assumes "Map_get L (JStr ident) = JObj kvs" and "is_record (JObj kvs)"
  shows "status L ident =
           ((200, obj ([(''ok'', JBool True), (''checkoutRequestId'', JStr ident)] @ kvs)), L)"
    and "get_prop (obj ([(''ok'', JBool True), (''checkoutRequestId'', JStr ident)] @ kvs)) ''ok'' = JBool True"
    and "get_prop (obj ([(''ok'', JBool True), (''checkoutRequestId'', JStr ident)] @ kvs)) ''checkoutRequestId''
           = JStr ident"
    and "own_prop (JObj kvs) k = Some x \<Longrightarrow>
         get_prop (obj ([(''ok'', JBool True), (''checkoutRequestId'', JStr ident)] @ kvs)) k = x"
  using assms
  by (simp_all add: status_def get_prop_obj own_prop_def is_record_def map_add_def
      map_of_rev_None)

lemma status2_eq: "status2 L ident = status L ident"
  by (simp add: status2_def status_def)

subsection \<open>The example, evaluated\<close>

lemma example_push: "fst (snd (stkpush example_world [] example_request)) = example_ledger"
  by code_simp

lemma example_push2: "fst (snd (stkpush2 example_world [] example_request2)) = example_ledger2"
  by code_simp

lemma example_reachable: "reachable example_ledger"
proof -
  have "stkpush example_world [] example_request
          = (fst (stkpush example_world [] example_request), example_ledger,
             snd (snd (stkpush example_world [] example_request)))"
    by (simp add: example_push [symmetric])
  with reachable.start show ?thesis by (rule reachable.after_stkpush)
qed

lemma example_reachable2: "reachable2 example_ledger2"
proof -
  have "stkpush2 example_world [] example_request2
          = (fst (stkpush2 example_world [] example_request2), example_ledger2,
             snd (snd (stkpush2 example_world [] example_request2)))"
    by (simp add: example_push2 [symmetric])
  with reachable2.start2 show ?thesis by (rule reachable2.after_stkpush2)
qed

lemma example_answer:
  "gateway_answer example_world (snd (snd (stkpush example_world [] example_both)))
     = Some (JObj [(''CheckoutRequestID'', JStr ''ws_1'')])"
  by code_simp

lemma example_answer2:
  "gateway_answer example_world (snd (snd (stkpush2 example_world [] example_both)))
     = Some (JObj [(''CheckoutRequestID'', JStr ''ws_1'')])"
  by code_simp


section \<open>The claims\<close>

subsection \<open>The phone normaliser\<close>

text \<open>
  C5. For every string of one of the four accepted shapes, both normalisers return the
  result of the specification's ordered pipeline (strip one leading plus; a leading 0
  becomes 254, else a leading 7 gets 254 in front, else unchanged), and that result is 254
  followed by nine digits. The four examples of the specification all give 254712345678.
\<close>

theorem normalizePhone_accepted:
  assumes "accepted_shape s"
  shows "normalizePhone (JStr s) = Inr (spec_pipeline s)
       \<and> normalizePhone2 (JStr s) = Inr (spec_pipeline s)
       \<and> canonical (spec_pipeline s)
       \<and> normalizePhone (JStr ''0712345678'') = Inr ''254712345678''
       \<and> normalizePhone (JStr ''712345678'') = Inr ''254712345678''
       \<and> normalizePhone (JStr ''254712345678'') = Inr ''254712345678''
       \<and> normalizePhone (JStr ''+254712345678'') = Inr ''254712345678''"
proof -
  have ne: "s \<noteq> []" using assms by (auto simp: accepted_shape_def)
  have "normalizePhone (JStr s) = Inr (spec_pipeline s)"
    using assms by (simp add: normalizePhone_def normalize_steps_spec accepted_trim)
  moreover have "normalizePhone2 (JStr s) = Inr (spec_pipeline s)"
    using assms ne by (simp add: normalizePhone2_def lor_def normalize_steps_spec accepted_trim)
  moreover have "normalizePhone (JStr ''0712345678'') = Inr ''254712345678''"
      "normalizePhone (JStr ''712345678'') = Inr ''254712345678''"
      "normalizePhone (JStr ''254712345678'') = Inr ''254712345678''"
      "normalizePhone (JStr ''+254712345678'') = Inr ''254712345678''"
    by (simp_all add: normalizePhone_def normalize_steps_def trim_def is_space_def startsWith_def slice1_def)
  ultimately show ?thesis using accepted_canonical [OF assms] by simp
qed

theorem normalizePhone_accepted_witness:
  "accepted_shape ''0712345678'' \<and> normalizePhone (JStr ''0712345678'') = Inr ''254712345678''
   \<and> normalizePhone2 (JStr ''0712345678'') = Inr ''254712345678''
   \<and> canonical ''254712345678''"
proof -
  have h: "accepted_shape ''0712345678''"
    by (simp add: accepted_shape_def startsWith_def all_digits_def is_digit_def)
  have e: "spec_pipeline ''0712345678'' = ''254712345678''"
    by (simp add: spec_pipeline_def startsWith_def slice1_def)
  show ?thesis using h normalizePhone_accepted [OF h] unfolding e by simp
qed

subsection \<open>The acknowledgement of a callback\<close>

text \<open>
  C8 as stated fails for a body that fails to parse: the JSON middleware refuses the request
  before the handler runs, and both servers answer 400 with an error page, not 200 with the
  acknowledgement.
\<close>

theorem callback_unparsable_counterexample:
  "fst (callback_route [] Unparsable) = ErrorPage 400
   \<and> fst (callback_route [] Unparsable)
        \<noteq> JsonReply (200, JObj [(''ResultCode'', JNum 0), (''ResultDesc'', JStr ''Accepted'')])
   \<and> fst (callback_route2 example_world [] Unparsable) = ErrorPage 400
   \<and> fst (callback_route2 example_world [] Unparsable)
        \<noteq> JsonReply (200, JObj [(''ResultCode'', JNum 0), (''ResultDesc'', JStr ''Accepted'')])"
  by (simp add: callback_route_def callback_route2_def)

text \<open>
  C8, amended. For every request whose body reaches the callback handler, whatever the shape
  of the body, whether the reading of it throws and whether its identifier is known, both
  servers answer 200 with exactly \<^verbatim>\<open>{ResultCode: 0, ResultDesc: "Accepted"}\<close>: nothing that
  happens inside the handler changes the response. A request whose body fails to parse as
  JSON does not reach the handler; it is answered 400 by the middleware and leaves the ledger
  unchanged.
\<close>

theorem callback_route_accepted:
  "fst (callback L body) = (200, JObj [(''ResultCode'', JNum 0), (''ResultDesc'', JStr ''Accepted'')])
   \<and> fst (callback2 w L body) = (200, JObj [(''ResultCode'', JNum 0), (''ResultDesc'', JStr ''Accepted'')])
   \<and> fst (callback_route L (Parsed body))
        = JsonReply (200, JObj [(''ResultCode'', JNum 0), (''ResultDesc'', JStr ''Accepted'')])
   \<and> fst (callback_route2 w L (Parsed body))
        = JsonReply (200, JObj [(''ResultCode'', JNum 0), (''ResultDesc'', JStr ''Accepted'')])
   \<and> snd (callback_route L (Parsed body)) = snd (callback L body)
   \<and> snd (callback_route2 w L (Parsed body)) = snd (callback2 w L body)
   \<and> callback_route L Unparsable = (ErrorPage 400, L)
   \<and> callback_route2 w L Unparsable = (ErrorPage 400, L)"
proof -
  have h: "fst (callback L body) = (200, JObj [(''ResultCode'', JNum 0), (''ResultDesc'', JStr ''Accepted'')])"
    "fst (callback2 w L body) = (200, JObj [(''ResultCode'', JNum 0), (''ResultDesc'', JStr ''Accepted'')])"
    by (simp_all add: callback_def callback2_def accepted_def obj_def split: sum.splits)
  show ?thesis
    using h
    by (cases "callback L body"; cases "callback2 w L body")
      (simp add: callback_route_def callback_route2_def)
qed

subsection \<open>The status set by a callback\<close>

text \<open>
  C3. For every callback with a (truthy) identifier that is present in the ledger, and whose
  body the handler reads without throwing, the record afterwards has status SUCCESS if the
  result code is the number 0 and FAILED otherwise: an absent result code, and one that is
  not the number 0 (the string "0", say), give FAILED. Both servers.
\<close>

theorem callback_status:
  assumes "extract_fields body = Inr (cid, rc, rd, receipt, amount, phone)"
    and "truthy cid" and "Map_has L cid"
  shows "get_prop (Map_get (snd (callback L body)) cid) ''status''
           = (if rc = JNum 0 then JStr ''SUCCESS'' else JStr ''FAILED'')
       \<and> get_prop (Map_get (snd (callback2 w L body)) cid) ''status''
           = (if rc = JNum 0 then JStr ''SUCCESS'' else JStr ''FAILED'')"
  using assms
  by (simp add: callback_applied callback2_applied applied_status applied2_status Map_has_not_ref)

theorem callback_status_witness:
  "get_prop (Map_get (snd (callback example_ledger example_success)) (JStr ''ws_1'')) ''status'' = JStr ''SUCCESS''
   \<and> get_prop (Map_get (snd (callback2 example_world example_ledger example_success)) (JStr ''ws_1'')) ''status'' = JStr ''SUCCESS''
   \<and> get_prop (Map_get (snd (callback example_ledger example_cancelled)) (JStr ''ws_1'')) ''status'' = JStr ''FAILED''"
proof -
  have h: "Map_has example_ledger (JStr ''ws_1'')" "truthy (JStr ''ws_1'')"
    by (simp_all add: Map_has_def example_ledger_def)
  show ?thesis
    using callback_status [OF extract_success h(2) h(1), of example_world]
      callback_status [OF extract_cancelled h(2) h(1), of example_world]
    by simp
qed

subsection \<open>Two callbacks for one identifier\<close>

text \<open>
  C4. For every identifier present in the ledger and every two callbacks for it applied one
  after the other, whatever their result codes (so in particular when they differ): the
  first leaves the record in a terminal state, SUCCESS or FAILED, and after the second the
  record has the status, the result code and the result description of the second. The
  terminal state does not protect the record. Both servers.
\<close>

theorem second_callback_wins:
  assumes "extract_fields b1 = Inr (cid, rc1, rd1, receipt1, amount1, phone1)"
    and "extract_fields b2 = Inr (cid, rc2, rd2, receipt2, amount2, phone2)"
    and "truthy cid" and "Map_has L cid"
  shows "get_prop (Map_get (snd (callback L b1)) cid) ''status'' \<in> {JStr ''SUCCESS'', JStr ''FAILED''}
       \<and> get_prop (Map_get (snd (callback (snd (callback L b1)) b2)) cid) ''status''
           = (if rc2 = JNum 0 then JStr ''SUCCESS'' else JStr ''FAILED'')
       \<and> get_prop (Map_get (snd (callback (snd (callback L b1)) b2)) cid) ''resultCode'' = rc2
       \<and> get_prop (Map_get (snd (callback (snd (callback L b1)) b2)) cid) ''resultDesc'' = rd2
       \<and> get_prop (Map_get (snd (callback2 w L b1)) cid) ''status'' \<in> {JStr ''SUCCESS'', JStr ''FAILED''}
       \<and> get_prop (Map_get (snd (callback2 w' (snd (callback2 w L b1)) b2)) cid) ''status''
           = (if rc2 = JNum 0 then JStr ''SUCCESS'' else JStr ''FAILED'')
       \<and> get_prop (Map_get (snd (callback2 w' (snd (callback2 w L b1)) b2)) cid) ''resultCode'' = rc2
       \<and> get_prop (Map_get (snd (callback2 w' (snd (callback2 w L b1)) b2)) cid) ''resultDesc'' = rd2"
proof -
  have r: "\<not> is_ref cid" using assms(4) by (rule Map_has_not_ref)
  show ?thesis
    using assms(3) r
    by (simp add: callback_applied [OF assms(1)] callback_applied [OF assms(2)]
        callback2_applied [OF assms(1)] callback2_applied [OF assms(2)]
        applied_status applied2_status applied_fields applied2_fields)
qed

theorem second_callback_wins_witness:
  "get_prop (Map_get (snd (callback example_ledger example_success)) (JStr ''ws_1'')) ''status'' = JStr ''SUCCESS''
   \<and> get_prop (Map_get (snd (callback (snd (callback example_ledger example_success)) example_cancelled))
        (JStr ''ws_1'')) ''status'' = JStr ''FAILED''
   \<and> get_prop (Map_get (snd (callback (snd (callback example_ledger example_success)) example_cancelled))
        (JStr ''ws_1'')) ''resultCode'' = JNum 1032
   \<and> get_prop (Map_get (snd (callback2 example_world
          (snd (callback2 example_world example_ledger2 example_success)) example_cancelled))
        (JStr ''ws_1'')) ''status'' = JStr ''FAILED''"
proof -
  have h: "truthy (JStr ''ws_1'')" "Map_has example_ledger (JStr ''ws_1'')"
      "Map_has example_ledger2 (JStr ''ws_1'')"
    by (simp_all add: Map_has_def example_ledger_def example_ledger2_def)
  have s: "get_prop (Map_get (snd (callback example_ledger example_success)) (JStr ''ws_1'')) ''status'' = JStr ''SUCCESS''"
    by (simp add: callback_applied [OF extract_success] applied_status)
  show ?thesis
    using second_callback_wins [OF extract_success extract_cancelled h(1) h(2)]
      second_callback_wins [OF extract_success extract_cancelled h(1) h(3), of example_world example_world]
      s
    by simp
qed


subsection \<open>A callback for an unknown identifier\<close>

text \<open>
  C1 as stated fails: a callback for an identifier that the ledger does not have is not a
  no-op. On the empty ledger the cancelled callback of the example leaves a ledger of size
  one that has the identifier, in both servers.
\<close>

theorem unknown_callback_counterexample:
  "\<not> Map_has [] (JStr ''ws_1'')
   \<and> snd (callback [] example_cancelled) \<noteq> []
   \<and> Map_size (snd (callback [] example_cancelled)) = 1
   \<and> Map_has (snd (callback [] example_cancelled)) (JStr ''ws_1'')
   \<and> snd (callback2 example_world [] example_cancelled) \<noteq> []
   \<and> Map_size (snd (callback2 example_world [] example_cancelled)) = 1
   \<and> Map_has (snd (callback2 example_world [] example_cancelled)) (JStr ''ws_1'')"
  by (simp add: callback_applied [OF extract_cancelled] callback2_applied [OF extract_cancelled]
      applyCallbackResult_def applyCallbackResult2_def Map_has_def Map_set_def Map_get_def
      Map_size_def lor_def Let_def)

text \<open>
  C1, amended. For every ledger and every callback whose identifier is not in the ledger (and
  whose body the handler reads without throwing), the handler returns the accept response,
  and: when the identifier is truthy a record is created for it, with the status that the
  result code gives, the size of the ledger grows by one and every other identifier reads
  as before; when the callback has no truthy identifier the ledger is unchanged.
\<close>

theorem unknown_callback_creates_record:
  assumes "extract_fields body = Inr (cid, rc, rd, receipt, amount, phone)"
    and "\<not> Map_has L cid" and "\<not> is_ref cid"
  shows "fst (callback L body) = (200, JObj [(''ResultCode'', JNum 0), (''ResultDesc'', JStr ''Accepted'')])
       \<and> fst (callback2 w L body) = (200, JObj [(''ResultCode'', JNum 0), (''ResultDesc'', JStr ''Accepted'')])
       \<and> (if truthy cid
          then Map_size (snd (callback L body)) = Suc (Map_size L)
             \<and> Map_has (snd (callback L body)) cid
             \<and> get_prop (Map_get (snd (callback L body)) cid) ''status''
                 = (if rc = JNum 0 then JStr ''SUCCESS'' else JStr ''FAILED'')
             \<and> (\<forall>k. k \<noteq> cid \<longrightarrow> Map_get (snd (callback L body)) k = Map_get L k)
             \<and> Map_size (snd (callback2 w L body)) = Suc (Map_size L)
             \<and> Map_has (snd (callback2 w L body)) cid
             \<and> get_prop (Map_get (snd (callback2 w L body)) cid) ''status''
                 = (if rc = JNum 0 then JStr ''SUCCESS'' else JStr ''FAILED'')
             \<and> (\<forall>k. k \<noteq> cid \<longrightarrow> Map_get (snd (callback2 w L body)) k = Map_get L k)
          else snd (callback L body) = L \<and> snd (callback2 w L body) = L)"
  using assms(2,3)
  by (simp add: callback_applied [OF assms(1)] callback2_applied [OF assms(1)] accepted_def obj_def
      applied_size applied2_size applied_has applied2_has applied_status applied2_status
      applied_other applied2_other applied_falsy applied2_falsy)

theorem unknown_callback_creates_record_witness:
  "\<not> Map_has [] (JStr ''ws_1'')
   \<and> Map_size (snd (callback [] example_cancelled)) = Suc (Map_size [])
   \<and> get_prop (Map_get (snd (callback [] example_cancelled)) (JStr ''ws_1'')) ''status'' = JStr ''FAILED''
   \<and> Map_get (snd (callback [] example_cancelled)) (JStr ''ws_2'') = Map_get [] (JStr ''ws_2'')
   \<and> Map_size (snd (callback2 example_world [] example_cancelled)) = Suc (Map_size [])
   \<and> snd (callback [] (JObj [])) = []
   \<and> snd (callback2 example_world [] (JObj [])) = []"
proof -
  have h: "\<not> Map_has [] (JStr ''ws_1'')" "\<not> is_ref (JStr ''ws_1'')"
    "\<not> Map_has [] JUndefined" "\<not> is_ref JUndefined"
    by (simp_all add: Map_has_def)
  have e: "extract_fields (JObj []) = Inr (JUndefined, JUndefined, JUndefined, JNull, JNull, JNull)"
    by (simp add: extract_fields_def opt_prop_def lor_def)
  show ?thesis
    using h(1) unknown_callback_creates_record [OF extract_cancelled h(1,2), of example_world]
      unknown_callback_creates_record [OF e h(3,4), of example_world]
    by simp
qed


subsection \<open>The fields written by a callback\<close>

text \<open>
  C2 as stated fails in the second server: the stored receipt is not preserved when a
  callback reports none. After the successful callback the record has the receipt R123; the
  cancelled callback, which reports no receipt, leaves null.
\<close>

theorem callback_fields_counterexample:
  "extract_fields example_cancelled
     = Inr (JStr ''ws_1'', JNum 1032, JStr ''Request cancelled by user'', JNull, JNull, JNull)
   \<and> get_prop (Map_get (snd (callback2 example_world example_ledger2 example_success)) (JStr ''ws_1''))
        ''receipt'' = JStr ''R123''
   \<and> get_prop (Map_get (snd (callback2 example_world
          (snd (callback2 example_world example_ledger2 example_success)) example_cancelled))
        (JStr ''ws_1'')) ''receipt'' = JNull"
  by (simp add: extract_cancelled callback2_applied [OF extract_success]
      callback2_applied [OF extract_cancelled] applied2_fields lor_def)

text \<open>
  C2, amended. For every record in the ledger and every callback for its identifier, with
  \<open>receipt\<close>, \<open>amount\<close> and \<open>phone\<close> the values that the loop over the items leaves:
  in the first server, receipt and phone take the callback's value when it is truthy, else
  keep the stored value when that is truthy, else become null; amount takes the callback's
  value when it is neither null nor undefined, else keeps the stored one unless that is
  undefined, which becomes null. In the second server the receipt is written by every
  callback (the callback's value when truthy, else null), the paid amount and phone go to
  the fields \<^verbatim>\<open>paidAmount\<close> and \<^verbatim>\<open>paidPhone\<close>, and the stored \<^verbatim>\<open>phone\<close> and \<^verbatim>\<open>amountKes\<close> are
  never touched. In both, the result code, the result description and the raw callback are
  written by every callback.
\<close>

theorem callback_field_updates:
  assumes "extract_fields body = Inr (cid, rc, rd, receipt, amount, phone)"
    and "truthy cid" and "Map_get L cid = JObj kvs"
  shows "get_prop (Map_get (snd (callback L body)) cid) ''receipt''
           = (if truthy receipt then receipt
              else if truthy (get_prop (JObj kvs) ''receipt'') then get_prop (JObj kvs) ''receipt''
              else JNull)
       \<and> get_prop (Map_get (snd (callback L body)) cid) ''amount''
           = (if \<not> nullish amount then amount
              else if \<not> nullish (get_prop (JObj kvs) ''amount'') then get_prop (JObj kvs) ''amount''
              else JNull)
       \<and> get_prop (Map_get (snd (callback L body)) cid) ''phone''
           = (if truthy phone then phone
              else if truthy (get_prop (JObj kvs) ''phone'') then get_prop (JObj kvs) ''phone''
              else JNull)
       \<and> get_prop (Map_get (snd (callback L body)) cid) ''resultCode'' = rc
       \<and> get_prop (Map_get (snd (callback L body)) cid) ''resultDesc'' = rd
       \<and> get_prop (Map_get (snd (callback L body)) cid) ''rawCallback'' = body
       \<and> get_prop (Map_get (snd (callback2 w L body)) cid) ''receipt''
           = (if truthy receipt then receipt else JNull)
       \<and> get_prop (Map_get (snd (callback2 w L body)) cid) ''paidAmount''
           = (if \<not> nullish amount then amount else JNull)
       \<and> get_prop (Map_get (snd (callback2 w L body)) cid) ''paidPhone''
           = (if truthy phone then phone else JNull)
       \<and> get_prop (Map_get (snd (callback2 w L body)) cid) ''phone'' = get_prop (JObj kvs) ''phone''
       \<and> get_prop (Map_get (snd (callback2 w L body)) cid) ''amountKes'' = get_prop (JObj kvs) ''amountKes''
       \<and> get_prop (Map_get (snd (callback2 w L body)) cid) ''resultCode'' = rc
       \<and> get_prop (Map_get (snd (callback2 w L body)) cid) ''resultDesc'' = rd
       \<and> get_prop (Map_get (snd (callback2 w L body)) cid) ''rawCallback'' = body"
proof -
  have r: "\<not> is_ref cid" using assms(3) by (auto simp: Map_get_def split: if_splits)
  have k: "get_prop (Map_get (snd (callback2 w L body)) cid) ''phone'' = get_prop (JObj kvs) ''phone''"
      "get_prop (Map_get (snd (callback2 w L body)) cid) ''amountKes'' = get_prop (JObj kvs) ''amountKes''"
    by (simp_all add: callback2_applied [OF assms(1)] applied2_kept [OF assms(2,3)])
  have o: "lor (Map_get L cid) (JObj []) = JObj kvs" by (simp add: assms(3) lor_def)
  note f = applied_fields [OF assms(2) r, of L rc rd receipt amount phone body, unfolded o]
  note g = applied2_fields [OF assms(2) r, of w L rc rd receipt amount phone body]
  show ?thesis
    unfolding callback_applied [OF assms(1)] callback2_applied [OF assms(1)] snd_conv
    using k [unfolded callback2_applied [OF assms(1)] snd_conv]
    by (simp add: f g lor_def coalesce_def del: get_prop.simps)
qed

theorem callback_field_updates_witness:
  "get_prop (Map_get (snd (callback example_ledger example_success)) (JStr ''ws_1'')) ''receipt'' = JStr ''R123''
   \<and> get_prop (Map_get (snd (callback example_ledger example_success)) (JStr ''ws_1'')) ''amount'' = JNum 10
   \<and> get_prop (Map_get (snd (callback example_ledger example_success)) (JStr ''ws_1'')) ''phone'' = JStr ''254712345678''
   \<and> get_prop (Map_get (snd (callback example_ledger example_success)) (JStr ''ws_1'')) ''resultCode'' = JNum 0"
proof -
  have h: "truthy (JStr ''ws_1'')"
    "Map_get example_ledger (JStr ''ws_1'') =
       JObj [(''status'', JStr ''PENDING''), (''bookingId'', JStr ''TEST-BOOKING''),
             (''phone'', JStr ''254712345678''), (''amount'', JNum 10),
             (''receipt'', JNull), (''raw'', JObj [(''CheckoutRequestID'', JStr ''ws_1'')])]"
    by (simp_all add: Map_get_def example_ledger_def)
  show ?thesis
    using callback_field_updates [OF extract_success h, of example_world]
    by simp
qed

subsection \<open>The status query\<close>

text \<open>
  C9. On every ledger that a server can reach, and for every request identifier: the status
  query returns the ledger unchanged; it answers 404 with
  \<^verbatim>\<open>{ok: false, error: "Not found"}\<close> when the ledger has no record for the identifier, and
  otherwise 200 with \<^verbatim>\<open>ok: true\<close>, the identifier under \<^verbatim>\<open>checkoutRequestId\<close>, and every
  property of the record. The handlers of the two servers are the same function.
\<close>

theorem status_query:
  assumes "reachable L \<or> reachable2 L"
  shows "snd (status L ident) = L \<and> status2 L ident = status L ident
       \<and> (\<not> Map_has L (JStr ident) \<longrightarrow>
            fst (status L ident) = (404, JObj [(''ok'', JBool False), (''error'', JStr ''Not found'')]))
       \<and> (Map_has L (JStr ident) \<longrightarrow>
            fst (fst (status L ident)) = 200
          \<and> get_prop (snd (fst (status L ident))) ''ok'' = JBool True
          \<and> get_prop (snd (fst (status L ident))) ''checkoutRequestId'' = JStr ident
          \<and> (\<forall>k x. own_prop (Map_get L (JStr ident)) k = Some x \<longrightarrow>
                 get_prop (snd (fst (status L ident))) k = x))"
proof -
  have inv: "records_only L"
    using assms reachable_records_only reachable2_records_only by blast
  have unchanged: "snd (status L ident) = L"
    by (simp add: status_def Let_def)
  have known: "fst (fst (status L ident)) = 200
          \<and> get_prop (snd (fst (status L ident))) ''ok'' = JBool True
          \<and> get_prop (snd (fst (status L ident))) ''checkoutRequestId'' = JStr ident
          \<and> (\<forall>k x. own_prop (Map_get L (JStr ident)) k = Some x \<longrightarrow>
                 get_prop (snd (fst (status L ident))) k = x)"
    if h: "Map_has L (JStr ident)"
  proof -
    from records_only_has [OF inv h] obtain kvs where
      g: "Map_get L (JStr ident) = JObj kvs" and r: "is_record (JObj kvs)"
      using is_record_cases by fastforce
    show ?thesis
      unfolding status_known(1) [OF g r] g
      using status_known(2-4) [OF g r] by simp
  qed
  show ?thesis
    using unchanged known by (simp add: status2_eq status_unknown)
qed

theorem status_query_witness:
  "snd (status example_ledger ''ws_1'') = example_ledger
   \<and> fst (fst (status example_ledger ''ws_1'')) = 200
   \<and> get_prop (snd (fst (status example_ledger ''ws_1''))) ''ok'' = JBool True
   \<and> get_prop (snd (fst (status example_ledger ''ws_1''))) ''status'' = JStr ''PENDING''
   \<and> fst (status example_ledger ''unknown'')
        = (404, JObj [(''ok'', JBool False), (''error'', JStr ''Not found'')])
   \<and> fst (fst (status2 example_ledger2 ''ws_1'')) = 200"
proof -
  have h: "Map_has example_ledger (JStr ''ws_1'')" "\<not> Map_has example_ledger (JStr ''unknown'')"
    "Map_has example_ledger2 (JStr ''ws_1'')"
    "own_prop (Map_get example_ledger (JStr ''ws_1'')) ''status'' = Some (JStr ''PENDING'')"
    by (simp_all add: Map_has_def Map_get_def own_prop_def example_ledger_def example_ledger2_def)
  have r: "reachable example_ledger \<or> reachable2 example_ledger"
    "reachable example_ledger2 \<or> reachable2 example_ledger2"
    using example_reachable example_reachable2 by simp_all
  show ?thesis
    using h status_query [OF r(1), of "''ws_1''"] status_query [OF r(1), of "''unknown''"]
      status_query [OF r(2), of "''ws_1''"]
    by simp
qed

subsection \<open>Insert, then read\<close>

text \<open>
  C6. When an initiation gets an answer from the gateway that carries the (non-empty string)
  identifier \<open>ident\<close>, the status query for \<open>ident\<close> on the ledger afterwards answers 200
  with a record whose status is PENDING, whose booking reference is the caller's (the default
  when the caller gave none), whose phone is the caller's phone normalised, whose amount is
  the caller's amount converted to a number, and whose raw payload is the gateway's answer.
  The first server stores the amount under \<^verbatim>\<open>amount\<close> and adds a null receipt; the second
  stores it under \<^verbatim>\<open>amountKes\<close> and adds the creation time.
\<close>

theorem stkpush_then_status:
  assumes "gateway_answer w cs = Some data"
    and "get_prop data ''CheckoutRequestID'' = JStr ident" and "ident \<noteq> []"
  shows "(stkpush w L reqBody = (res, L', cs) \<longrightarrow>
          (\<exists>p amt body.
              normalizePhone (get_prop reqBody ''phone'') = Inr p
            \<and> Number (get_prop reqBody ''amount'') = Inr amt
            \<and> status L' ident = ((200, body), L')
            \<and> get_prop body ''status'' = JStr ''PENDING''
            \<and> get_prop body ''bookingId'' = dflt (get_prop reqBody ''bookingId'') (JStr ''TEST-BOOKING'')
            \<and> get_prop body ''phone'' = JStr p
            \<and> get_prop body ''amount'' = amt
            \<and> get_prop body ''raw'' = data
            \<and> get_prop body ''receipt'' = JNull))
       \<and> (stkpush2 w L reqBody = (res, L', cs) \<longrightarrow>
          (\<exists>p amt body.
              normalizePhone2 (get_prop reqBody ''phone'') = Inr p
            \<and> Number (get_prop reqBody ''amountKes'') = Inr amt
            \<and> status2 L' ident = ((200, body), L')
            \<and> get_prop body ''status'' = JStr ''PENDING''
            \<and> get_prop body ''bookingId'' = dflt (get_prop reqBody ''bookingId'') (JStr ''TEST'')
            \<and> get_prop body ''phone'' = JStr p
            \<and> get_prop body ''amountKes'' = amt
            \<and> get_prop body ''createdAt'' = JStr (toISOString w)
            \<and> get_prop body ''raw'' = data))"
proof -
  have t: "truthy (opt_prop data ''CheckoutRequestID'')"
    using assms(2,3) by (cases data) (simp_all add: opt_prop_def)
  have i: "get_prop data ''CheckoutRequestID'' = JStr ident" by (rule assms(2))
  have 1: "\<exists>p amt body.
              normalizePhone (get_prop reqBody ''phone'') = Inr p
            \<and> Number (get_prop reqBody ''amount'') = Inr amt
            \<and> status L' ident = ((200, body), L')
            \<and> get_prop body ''status'' = JStr ''PENDING''
            \<and> get_prop body ''bookingId'' = dflt (get_prop reqBody ''bookingId'') (JStr ''TEST-BOOKING'')
            \<and> get_prop body ''phone'' = JStr p
            \<and> get_prop body ''amount'' = amt
            \<and> get_prop body ''raw'' = data
            \<and> get_prop body ''receipt'' = JNull"
    if h: "stkpush w L reqBody = (res, L', cs)"
  proof -
    from stkpush_answered [OF h assms(1)] obtain p amt where
      pa: "normalizePhone (get_prop reqBody ''phone'') = Inr p"
          "Number (get_prop reqBody ''amount'') = Inr amt"
      and L': "L' = Map_set L (JStr ident)
                 (obj [(''status'', JStr ''PENDING''),
                       (''bookingId'', dflt (get_prop reqBody ''bookingId'') (JStr ''TEST-BOOKING'')),
                       (''phone'', JStr p), (''amount'', amt), (''receipt'', JNull), (''raw'', data)])"
      using t i by auto
    have g: "Map_get L' (JStr ident)
               = JObj [(''status'', JStr ''PENDING''),
                       (''bookingId'', dflt (get_prop reqBody ''bookingId'') (JStr ''TEST-BOOKING'')),
                       (''phone'', JStr p), (''amount'', amt), (''receipt'', JNull), (''raw'', data)]"
      unfolding L' by (simp add: Map_get_set_same obj_def)
    show ?thesis
      using pa by (simp add: status_def g get_prop_obj)
  qed
  have 2: "\<exists>p amt body.
              normalizePhone2 (get_prop reqBody ''phone'') = Inr p
            \<and> Number (get_prop reqBody ''amountKes'') = Inr amt
            \<and> status2 L' ident = ((200, body), L')
            \<and> get_prop body ''status'' = JStr ''PENDING''
            \<and> get_prop body ''bookingId'' = dflt (get_prop reqBody ''bookingId'') (JStr ''TEST'')
            \<and> get_prop body ''phone'' = JStr p
            \<and> get_prop body ''amountKes'' = amt
            \<and> get_prop body ''createdAt'' = JStr (toISOString w)
            \<and> get_prop body ''raw'' = data"
    if h: "stkpush2 w L reqBody = (res, L', cs)"
  proof -
    from stkpush2_answered [OF h assms(1)] obtain p amt where
      pa: "normalizePhone2 (get_prop reqBody ''phone'') = Inr p"
          "Number (get_prop reqBody ''amountKes'') = Inr amt"
      and L': "L' = Map_set L (JStr ident)
                 (obj [(''status'', JStr ''PENDING''),
                       (''bookingId'', dflt (get_prop reqBody ''bookingId'') (JStr ''TEST'')),
                       (''phone'', JStr p), (''amountKes'', amt),
                       (''createdAt'', JStr (toISOString w)), (''raw'', data)])"
      using t i by auto
    have g: "Map_get L' (JStr ident)
               = JObj [(''status'', JStr ''PENDING''),
                       (''bookingId'', dflt (get_prop reqBody ''bookingId'') (JStr ''TEST'')),
                       (''phone'', JStr p), (''amountKes'', amt),
                       (''createdAt'', JStr (toISOString w)), (''raw'', data)]"
      unfolding L' by (simp add: Map_get_set_same obj_def)
    show ?thesis
      using pa by (simp add: status2_def g get_prop_obj)
  qed
  from 1 2 show ?thesis by blast
qed

theorem stkpush_then_status_witness:
  "get_prop (snd (fst (status (fst (snd (stkpush example_world [] example_both))) ''ws_1''))) ''status''
     = JStr ''PENDING''
   \<and> get_prop (snd (fst (status (fst (snd (stkpush example_world [] example_both))) ''ws_1''))) ''phone''
     = JStr ''254712345678''
   \<and> get_prop (snd (fst (status (fst (snd (stkpush example_world [] example_both))) ''ws_1''))) ''amount''
     = JNum 10
   \<and> get_prop (snd (fst (status2 (fst (snd (stkpush2 example_world [] example_both))) ''ws_1''))) ''status''
     = JStr ''PENDING''
   \<and> get_prop (snd (fst (status2 (fst (snd (stkpush2 example_world [] example_both))) ''ws_1''))) ''amountKes''
     = JNum 10"
proof -
  have h: "get_prop (JObj [(''CheckoutRequestID'', JStr ''ws_1'')]) ''CheckoutRequestID'' = JStr ''ws_1''"
    "''ws_1'' \<noteq> []"
    by simp_all
  have e: "normalizePhone (get_prop example_both ''phone'') = Inr ''254712345678''"
    "normalizePhone2 (get_prop example_both ''phone'') = Inr ''254712345678''"
    "Number (get_prop example_both ''amount'') = Inr (JNum 10)"
    "Number (get_prop example_both ''amountKes'') = Inr (JNum 10)"
    by (simp_all add: example_both_def normalizePhone_def normalizePhone2_def lor_def
        normalize_steps_def trim_def is_space_def startsWith_def slice1_def)
  have p1: "stkpush example_world [] example_both
          = (fst (stkpush example_world [] example_both),
             fst (snd (stkpush example_world [] example_both)),
             snd (snd (stkpush example_world [] example_both)))"
    and p2: "stkpush2 example_world [] example_both
          = (fst (stkpush2 example_world [] example_both),
             fst (snd (stkpush2 example_world [] example_both)),
             snd (snd (stkpush2 example_world [] example_both)))"
    by simp_all
  show ?thesis
    using stkpush_then_status [OF example_answer h, THEN conjunct1, rule_format, OF p1]
      stkpush_then_status [OF example_answer2 h, THEN conjunct2, rule_format, OF p2]
    by (auto simp: e)
qed

subsection \<open>An answer without identifier\<close>

text \<open>
  C10 as stated fails where the gateway's answer has a field \<^verbatim>\<open>ok\<close> of its own: the
  response is \<^verbatim>\<open>{ok: true, ...data}\<close>, and the spread comes last. With the answer
  \<^verbatim>\<open>{ok: false}\<close>, which has no identifier, both servers respond 200 with \<^verbatim>\<open>ok: false\<close>.
\<close>

theorem stkpush_ok_counterexample:
  "gateway_answer example_world_ok_false (snd (snd (stkpush example_world_ok_false [] example_both)))
     = Some (JObj [(''ok'', JBool False)])
   \<and> opt_prop (JObj [(''ok'', JBool False)]) ''CheckoutRequestID'' = JUndefined
   \<and> fst (fst (stkpush example_world_ok_false [] example_both)) = 200
   \<and> get_prop (snd (fst (stkpush example_world_ok_false [] example_both))) ''ok'' = JBool False
   \<and> fst (fst (stkpush2 example_world_ok_false [] example_both)) = 200
   \<and> get_prop (snd (fst (stkpush2 example_world_ok_false [] example_both))) ''ok'' = JBool False"
  by code_simp

text \<open>
  C10, amended. When an initiation gets an answer from the gateway without a (truthy)
  \<^verbatim>\<open>CheckoutRequestID\<close>, the handler responds 200 with every field of the answer, and with
  \<^verbatim>\<open>ok: true\<close> unless the answer has a field \<^verbatim>\<open>ok\<close> itself; the ledger is unchanged, so the
  status query for any identifier that the ledger did not hold before answers 404.
\<close>

theorem stkpush_without_identifier:
  assumes "gateway_answer w cs = Some data"
    and "\<not> truthy (opt_prop data ''CheckoutRequestID'')"
  shows "(stkpush w L reqBody = (res, L', cs) \<longrightarrow>
            fst res = 200 \<and> L' = L
          \<and> (\<forall>k x. own_prop data k = Some x \<longrightarrow> get_prop (snd res) k = x)
          \<and> (own_prop data ''ok'' = None \<longrightarrow> get_prop (snd res) ''ok'' = JBool True)
          \<and> (\<forall>ident. \<not> Map_has L (JStr ident) \<longrightarrow>
                fst (status L' ident) = (404, JObj [(''ok'', JBool False), (''error'', JStr ''Not found'')])))
       \<and> (stkpush2 w L reqBody = (res, L', cs) \<longrightarrow>
            fst res = 200 \<and> L' = L
          \<and> (\<forall>k x. own_prop data k = Some x \<longrightarrow> get_prop (snd res) k = x)
          \<and> (own_prop data ''ok'' = None \<longrightarrow> get_prop (snd res) ''ok'' = JBool True)
          \<and> (\<forall>ident. \<not> Map_has L (JStr ident) \<longrightarrow>
                fst (status2 L' ident) = (404, JObj [(''ok'', JBool False), (''error'', JStr ''Not found'')])))"
proof -
  have 1: "fst res = 200 \<and> L' = L
          \<and> (\<forall>k x. own_prop data k = Some x \<longrightarrow> get_prop (snd res) k = x)
          \<and> (own_prop data ''ok'' = None \<longrightarrow> get_prop (snd res) ''ok'' = JBool True)
          \<and> (\<forall>ident. \<not> Map_has L (JStr ident) \<longrightarrow>
                fst (status L' ident) = (404, JObj [(''ok'', JBool False), (''error'', JStr ''Not found'')]))"
    if h: "stkpush w L reqBody = (res, L', cs)"
    using stkpush_answered [OF h assms(1)] assms(2)
    by (auto simp: get_prop_obj own_prop_def map_add_def status_unknown)
  have 2: "fst res = 200 \<and> L' = L
          \<and> (\<forall>k x. own_prop data k = Some x \<longrightarrow> get_prop (snd res) k = x)
          \<and> (own_prop data ''ok'' = None \<longrightarrow> get_prop (snd res) ''ok'' = JBool True)
          \<and> (\<forall>ident. \<not> Map_has L (JStr ident) \<longrightarrow>
                fst (status2 L' ident) = (404, JObj [(''ok'', JBool False), (''error'', JStr ''Not found'')]))"
    if h: "stkpush2 w L reqBody = (res, L', cs)"
    using stkpush2_answered [OF h assms(1)] assms(2)
    by (auto simp: get_prop_obj own_prop_def map_add_def status_unknown status2_eq)
  from 1 2 show ?thesis by blast
qed

theorem stkpush_without_identifier_witness:
  "fst (fst (stkpush example_world_ok_false [] example_both)) = 200
   \<and> fst (snd (stkpush example_world_ok_false [] example_both)) = []
   \<and> get_prop (snd (fst (stkpush example_world_ok_false [] example_both))) ''ok'' = JBool False
   \<and> fst (status (fst (snd (stkpush example_world_ok_false [] example_both))) ''ws_1'')
       = (404, JObj [(''ok'', JBool False), (''error'', JStr ''Not found'')])
   \<and> fst (fst (stkpush2 example_world_ok_false [] example_both)) = 200
   \<and> fst (snd (stkpush2 example_world_ok_false [] example_both)) = []
   \<and> get_prop (snd (fst (stkpush example_world_no_id [] example_both))) ''ok'' = JBool True
   \<and> get_prop (snd (fst (stkpush example_world_no_id [] example_both))) ''ResponseCode'' = JStr ''1''
   \<and> get_prop (snd (fst (stkpush2 example_world_no_id [] example_both))) ''ok'' = JBool True"
proof -
  have a: "gateway_answer example_world_ok_false (snd (snd (stkpush example_world_ok_false [] example_both)))
     = Some (JObj [(''ok'', JBool False)])"
    "gateway_answer example_world_ok_false (snd (snd (stkpush2 example_world_ok_false [] example_both)))
     = Some (JObj [(''ok'', JBool False)])"
    "gateway_answer example_world_no_id (snd (snd (stkpush example_world_no_id [] example_both)))
     = Some (JObj [(''ResponseCode'', JStr ''1'')])"
    "gateway_answer example_world_no_id (snd (snd (stkpush2 example_world_no_id [] example_both)))
     = Some (JObj [(''ResponseCode'', JStr ''1'')])"
    by code_simp+
  have h: "\<not> truthy (opt_prop (JObj [(''ok'', JBool False)]) ''CheckoutRequestID'')"
    "\<not> truthy (opt_prop (JObj [(''ResponseCode'', JStr ''1'')]) ''CheckoutRequestID'')"
    "\<not> Map_has [] (JStr ''ws_1'')"
    "own_prop (JObj [(''ok'', JBool False)]) ''ok'' = Some (JBool False)"
    "own_prop (JObj [(''ResponseCode'', JStr ''1'')]) ''ok'' = None"
    "own_prop (JObj [(''ResponseCode'', JStr ''1'')]) ''ResponseCode'' = Some (JStr ''1'')"
    by (simp_all add: opt_prop_def Map_has_def own_prop_def)
  have p: "\<And>w. stkpush w [] example_both
          = (fst (stkpush w [] example_both), fst (snd (stkpush w [] example_both)),
             snd (snd (stkpush w [] example_both)))"
    "\<And>w. stkpush2 w [] example_both
          = (fst (stkpush2 w [] example_both), fst (snd (stkpush2 w [] example_both)),
             snd (snd (stkpush2 w [] example_both)))"
    by simp_all
  show ?thesis
    using h(3-6)
      stkpush_without_identifier [OF a(1) h(1), THEN conjunct1, rule_format, OF p(1)]
      stkpush_without_identifier [OF a(2) h(1), THEN conjunct2, rule_format, OF p(2)]
      stkpush_without_identifier [OF a(3) h(2), THEN conjunct1, rule_format, OF p(1)]
      stkpush_without_identifier [OF a(4) h(2), THEN conjunct2, rule_format, OF p(2)]
    by metis
qed


subsection \<open>Rejected initiations\<close>

text \<open>
  C7 as stated fails for a field that is present with a falsy value. The request
  \<^verbatim>\<open>{phone: "0712345678", amount: 0, amountKes: 0}\<close> has both fields, the passkey is not
  configured, and both servers answer 400, not 500.
\<close>

theorem stkpush_zero_amount_counterexample:
  "get_prop example_zero_amount ''phone'' = JStr ''0712345678''
   \<and> get_prop example_zero_amount ''amount'' = JNum 0
   \<and> get_prop example_zero_amount ''amountKes'' = JNum 0
   \<and> process_env example_world_no_passkey ''MPESA_PASSKEY'' = None
   \<and> fst (stkpush example_world_no_passkey [] example_zero_amount)
       = (400, JObj [(''error'', JStr ''amount is required'')])
   \<and> fst (stkpush2 example_world_no_passkey [] example_zero_amount)
       = (400, JObj [(''ok'', JBool False), (''error'', JStr ''amountKes required'')])"
  by code_simp

text \<open>
  C7, amended. A request without \<^verbatim>\<open>phone\<close> gets 400 with an error; a request without the
  amount field (\<^verbatim>\<open>amount\<close> in the first server, \<^verbatim>\<open>amountKes\<close> in the second) gets 400 with
  an error; a request whose phone and amount are both truthy gets 500 with the error
  \<^verbatim>\<open>Missing MPESA_PASSKEY\<close> when the passkey is not configured, and 500 with the different
  error \<^verbatim>\<open>Missing MPESA_CALLBACK_URL\<close> when the passkey is configured and the callback URL
  is not. In all these cases the ledger is unchanged and no call to the gateway is made.
\<close>

theorem stkpush_rejections:
  "(get_prop reqBody ''phone'' = JUndefined \<longrightarrow>
      stkpush w L reqBody = ((400, JObj [(''error'', JStr ''phone is required'')]), L, [])
    \<and> stkpush2 w L reqBody = ((400, JObj [(''ok'', JBool False), (''error'', JStr ''phone required'')]), L, []))
 \<and> (get_prop reqBody ''amount'' = JUndefined \<longrightarrow>
      fst (fst (stkpush w L reqBody)) = 400
    \<and> get_prop (snd (fst (stkpush w L reqBody))) ''error''
         \<in> {JStr ''phone is required'', JStr ''amount is required''}
    \<and> snd (stkpush w L reqBody) = (L, []))
 \<and> (get_prop reqBody ''amountKes'' = JUndefined \<longrightarrow>
      fst (fst (stkpush2 w L reqBody)) = 400
    \<and> get_prop (snd (fst (stkpush2 w L reqBody))) ''error''
         \<in> {JStr ''phone required'', JStr ''amountKes required''}
    \<and> snd (stkpush2 w L reqBody) = (L, []))
 \<and> (truthy (get_prop reqBody ''phone'') \<and> truthy (get_prop reqBody ''amount'')
      \<and> falsy_env (process_env w ''MPESA_PASSKEY'') \<longrightarrow>
      stkpush w L reqBody = ((500, JObj [(''error'', JStr ''Missing MPESA_PASSKEY'')]), L, []))
 \<and> (truthy (get_prop reqBody ''phone'') \<and> truthy (get_prop reqBody ''amount'')
      \<and> \<not> falsy_env (process_env w ''MPESA_PASSKEY'')
      \<and> falsy_env (process_env w ''MPESA_CALLBACK_URL'') \<longrightarrow>
      stkpush w L reqBody = ((500, JObj [(''error'', JStr ''Missing MPESA_CALLBACK_URL'')]), L, []))
 \<and> (truthy (get_prop reqBody ''phone'') \<and> truthy (get_prop reqBody ''amountKes'')
      \<and> falsy_env (process_env w ''MPESA_PASSKEY'') \<longrightarrow>
      stkpush2 w L reqBody
        = ((500, JObj [(''ok'', JBool False), (''error'', JStr ''Missing MPESA_PASSKEY'')]), L, []))
 \<and> (truthy (get_prop reqBody ''phone'') \<and> truthy (get_prop reqBody ''amountKes'')
      \<and> \<not> falsy_env (process_env w ''MPESA_PASSKEY'')
      \<and> falsy_env (process_env w ''MPESA_CALLBACK_URL'') \<longrightarrow>
      stkpush2 w L reqBody
        = ((500, JObj [(''ok'', JBool False), (''error'', JStr ''Missing MPESA_CALLBACK_URL'')]), L, []))"
  by (simp add: stkpush_def stkpush2_def stkpush_try_def stkpush_try2_def Let_def
      get_prop_lor_empty obj_def)

theorem stkpush_rejections_witness:
  "stkpush example_world [] (JObj []) = ((400, JObj [(''error'', JStr ''phone is required'')]), [], [])
   \<and> fst (fst (stkpush example_world [] (JObj [(''phone'', JStr ''0712345678'')]))) = 400
   \<and> fst (fst (stkpush2 example_world [] (JObj [(''phone'', JStr ''0712345678'')]))) = 400
   \<and> stkpush example_world_no_passkey [] example_both
       = ((500, JObj [(''error'', JStr ''Missing MPESA_PASSKEY'')]), [], [])
   \<and> stkpush example_world_no_callback [] example_both
       = ((500, JObj [(''error'', JStr ''Missing MPESA_CALLBACK_URL'')]), [], [])
   \<and> stkpush2 example_world_no_passkey [] example_both
       = ((500, JObj [(''ok'', JBool False), (''error'', JStr ''Missing MPESA_PASSKEY'')]), [], [])
   \<and> stkpush2 example_world_no_callback [] example_both
       = ((500, JObj [(''ok'', JBool False), (''error'', JStr ''Missing MPESA_CALLBACK_URL'')]), [], [])"
proof -
  have b: "get_prop (JObj []) ''phone'' = JUndefined"
    "get_prop (JObj [(''phone'', JStr ''0712345678'')]) ''amount'' = JUndefined"
    "get_prop (JObj [(''phone'', JStr ''0712345678'')]) ''amountKes'' = JUndefined"
    "truthy (get_prop example_both ''phone'')" "truthy (get_prop example_both ''amount'')"
    "truthy (get_prop example_both ''amountKes'')"
    by (simp_all add: example_both_def)
  have e: "falsy_env (process_env example_world_no_passkey ''MPESA_PASSKEY'')"
    "\<not> falsy_env (process_env example_world_no_callback ''MPESA_PASSKEY'')"
    "falsy_env (process_env example_world_no_callback ''MPESA_CALLBACK_URL'')"
    by (simp_all add: example_world_no_passkey_def example_world_no_callback_def example_world_def
        falsy_env_def)
  show ?thesis
    using b e stkpush_rejections [of "JObj []" example_world "[]"]
      stkpush_rejections [of "JObj [(''phone'', JStr ''0712345678'')]" example_world "[]"]
      stkpush_rejections [of example_both example_world_no_passkey "[]"]
      stkpush_rejections [of example_both example_world_no_callback "[]"]
    by simp
qed


end
